theory Spec2Isabelle
  imports Complex_Main "HOL-Library.Word"
begin

section \<open>Python text as lists of code points\<close>

text \<open>
  A Python \<open>str\<close> is a sequence of Unicode code points. The program's literals are Korean,
  so a text is modelled as the list of its code points; \<open>cp\<close> writes an ASCII literal.
  Uploaded files are byte strings.
\<close>

type_synonym pystr = "nat list"

type_synonym bytes = "8 word list"

definition cp :: "string \<Rightarrow> pystr" where
  "cp s = map of_char s"

text \<open>\<open>str.isspace\<close> on one code point: the characters that \<open>str.strip()\<close> removes.\<close>

definition py_isspace :: "nat \<Rightarrow> bool" where
  "py_isspace c =
     ((9 \<le> c \<and> c \<le> 13) \<or> (28 \<le> c \<and> c \<le> 32) \<or> c = 133 \<or> c = 160 \<or> c = 5760 \<or>
      (8192 \<le> c \<and> c \<le> 8202) \<or> c = 8232 \<or> c = 8233 \<or> c = 8239 \<or> c = 8287 \<or> c = 12288)"

definition strip :: "pystr \<Rightarrow> pystr" where
  "strip s = rev (dropWhile py_isspace (rev (dropWhile py_isspace s)))"

text \<open>\<open>sep.join(xs)\<close> on a list of texts.\<close>

fun join :: "pystr \<Rightarrow> pystr list \<Rightarrow> pystr" where
  "join sep [] = []"
| "join sep [x] = x"
| "join sep (x # y # ys) = x @ sep @ join sep (y # ys)"

text \<open>\<open>sub in s\<close> on two texts: \<open>sub\<close> occurs in \<open>s\<close> as a contiguous run.\<close>

definition startswith :: "pystr \<Rightarrow> pystr \<Rightarrow> bool" where
  "startswith s p = (take (length p) s = p)"

fun py_in :: "pystr \<Rightarrow> pystr \<Rightarrow> bool" where
  "py_in sub [] = (sub = [])"
| "py_in sub (c # cs) = (startswith (c # cs) sub \<or> py_in sub cs)"

section \<open>The allergen catalogue\<close>

text \<open>\<open>MAJOR_ALLERGENS\<close>: the twenty category names, in the order of the source.\<close>

definition MAJOR_ALLERGENS :: "pystr list" where
  "MAJOR_ALLERGENS =
    [[50864, 50976, 47, 50976, 51228, 54408],
     [45804, 44096, 47, 45212, 47448],
     [46405, 53097],
     [44204, 44284, 47448],
     [48128, 47, 44544, 47336, 53584],
     [45824, 46160, 47, 53097],
     [49373, 49440, 47, 50612, 47448],
     [44049, 44033, 47448, 40, 49352, 50864, 44, 44172, 44, 46989, 49828, 53552, 41],
     [51312, 44060, 47448, 47, 54056, 47448],
     [52280, 44648],
     [50500, 54889, 49328, 50684],
     [47700, 48128],
     [46076, 51648, 44256, 44592],
     [49548, 44256, 44592],
     [45805, 44256, 44592],
     [48373, 49709, 50500],
     [53664, 47560, 53664],
     [53412, 50948],
     [48148, 45208, 45208],
     [50500, 48372, 52852, 46020]]"

section \<open>Exceptions and decoded JSON\<close>

text \<open>
  An exception is its class and its message (\<open>str(e)\<close>). \<open>RateLimitError\<close> and
  \<open>APIConnectionError\<close> are the two classes the retry loops catch; \<open>OtherAPIError\<close>
  stands for every other failure of the model call (authentication, bad request).
  All classes below derive from \<open>Exception\<close>.
\<close>

datatype exc_class =
    RateLimitError | APIConnectionError | OtherAPIError
  | JSONDecodeError | RecursionError
  | IndexError | AttributeError | UnboundLocalError | KeyError | TypeError
  | OtherException

datatype exc = Exc (exc_class: exc_class) (exc_str: pystr)

text \<open>
  What \<open>json.loads\<close> builds. A Python float is a finite rational, an infinity or NaN
  (the decoder accepts \<open>Infinity\<close> and \<open>NaN\<close>). A dict is an association list in
  insertion order; lookup takes the first binding of a key.
\<close>

datatype pyfloat = Finite rat | PosInf | NegInf | NaN

datatype json =
    JNull
  | JBool bool
  | JInt int
  | JFloat pyfloat
  | JStr pystr
  | JList "json list"
  | JDict "(pystr \<times> json) list"

type_synonym pydict = "(pystr \<times> json) list"

definition has_key :: "pystr \<Rightarrow> pydict \<Rightarrow> bool" where
  "has_key k d = (map_of d k \<noteq> None)"

text \<open>
  \<open>json.loads\<close> is the standard library's; the model takes it as a parameter. It is only
  ever applied to a text that starts with an opening brace, where it returns a dict or raises.
\<close>

type_synonym decoder = "pystr \<Rightarrow> exc + pydict"

section \<open>The response parser\<close>

text \<open>
  \<open>re.search(r'\{.*\}', content, re.DOTALL)\<close>. The search tries every start position from
  the left; at a position the pattern needs an opening brace (code point 123), then \<open>.*\<close>
  takes as many characters as it can (with \<open>DOTALL\<close> any character) so that a closing
  brace (125) still follows. \<open>greedy_to c r\<close> is the longest prefix of \<open>r\<close> that ends in
  \<open>c\<close>.
\<close>

definition greedy_to :: "nat \<Rightarrow> pystr \<Rightarrow> pystr option" where
  "greedy_to c r =
     (let t = dropWhile (\<lambda>x. x \<noteq> c) (rev r) in if t = [] then None else Some (rev t))"

definition match_here :: "pystr \<Rightarrow> pystr option" where
  "match_here s =
     (case s of
        [] \<Rightarrow> None
      | c # r \<Rightarrow> if c = 123 then map_option ((#) 123) (greedy_to 125 r) else None)"

fun re_search :: "pystr \<Rightarrow> pystr option" where
  "re_search [] = None"
| "re_search (c # r) =
     (case match_here (c # r) of Some m \<Rightarrow> Some m | None \<Rightarrow> re_search r)"

text \<open>
  The substring the specification names: from the first opening brace of \<open>s\<close> through
  its last closing brace. Written from the specification's words, in Python's terms
  \<open>s[s.index('{') : s.rindex('}') + 1]\<close>, to be compared with \<open>re_search\<close>.
\<close>

definition first_index :: "nat \<Rightarrow> pystr \<Rightarrow> nat" where
  "first_index c s = length (takeWhile (\<lambda>x. x \<noteq> c) s)"

definition last_index :: "nat \<Rightarrow> pystr \<Rightarrow> nat" where
  "last_index c s = length s - Suc (length (takeWhile (\<lambda>x. x \<noteq> c) (rev s)))"

definition first_to_last_brace :: "pystr \<Rightarrow> pystr" where
  "first_to_last_brace s =
     take (Suc (last_index 125 s) - first_index 123 s) (drop (first_index 123 s) s)"

section \<open>Messages of the program\<close>

text \<open>
  The Korean literals of the error values, as code points:
  \<^item> \<open>err_parse_failed\<close>: "response parsing failed"
  \<^item> \<open>err_json\<close>: "JSON parsing error"
  \<^item> \<open>err_api\<close>: "API call failed"
  \<^item> \<open>report_failed\<close>: "report generation failed"
  \<^item> \<open>med_parse_failed\<close>: "medical information parsing failed"
  \<^item> \<open>med_failed\<close>: "medical information generation failed"
  \<^item> \<open>pdf_error_prefix\<close>: "PDF read error"
  \<^item> \<open>oryu\<close>: "error"
\<close>

definition err_parse_failed :: pystr where
  "err_parse_failed =
    [51025, 45813, 32, 54028, 49905, 32, 49892, 54056]"

definition err_json :: pystr where
  "err_json =
    [74, 83, 79, 78, 32, 54028, 49905, 32, 50724, 47448]"

definition err_api :: pystr where
  "err_api =
    [65, 80, 73, 32, 54840, 52636, 32, 49892, 54056]"

definition report_failed :: pystr where
  "report_failed =
    [48372, 44256, 49436, 32, 49373, 49457, 32, 49892, 54056, 58, 32]"

definition med_parse_failed :: pystr where
  "med_parse_failed =
    [51032, 54617, 32, 51221, 48372, 32, 54028, 49905, 32, 49892, 54056]"

definition med_failed :: pystr where
  "med_failed =
    [51032, 54617, 32, 51221, 48372, 32, 49373, 49457, 32, 49892, 54056, 58, 32]"

definition pdf_error_prefix :: pystr where
  "pdf_error_prefix =
    [80, 68, 70, 32, 51069, 44592, 32, 50724, 47448, 58, 32]"

definition oryu :: pystr where
  "oryu =
    [50724, 47448]"

section \<open>Prompts\<close>

text \<open>
  Each prompt is an f-string: literal pieces around the interpolated values. A piece is the
  source's text, one row per source line, with the doubled braces of the f-string read as
  single ones. \<open>catalog_text\<close> is \<open>', '.join(MAJOR_ALLERGENS)\<close>.
\<close>

definition catalog_text :: pystr where
  "catalog_text = join [44, 32] MAJOR_ALLERGENS"

definition image_prompt_0 :: pystr where
  "image_prompt_0 = concat
    [[10],
     [32, 32, 32, 32, 45817, 49888, 51008, 32, 54617, 44368, 32, 44553, 49885, 32, 50689, 50577,
      49324, 51060, 51088, 32, 50508, 47112, 47476, 44592, 32, 51204, 47928, 44032, 51077, 45768,
      45796, 46, 32, 10],
     [32, 32, 32, 32, 51060, 32, 51060, 48120, 51648, 47484, 32, 47588, 50864, 32, 51088, 49464,
      55176, 32, 48516, 49437, 54616, 50668, 32, 45796, 51020, 32, 51089, 50629, 51012, 32, 49688,
      54665, 54644, 51452, 49464, 50836, 58, 10],
     [10],
     [32, 32, 32, 32, 49, 46, 32, 51060, 48120, 51648, 50640, 32, 51080, 45716, 32, 47784, 46304, 32,
      51020, 49885, 47, 47700, 45684, 47484, 32, 49885, 48324, 54616, 49464, 50836, 10],
     [32, 32, 32, 32, 50, 46, 32, 44033, 32, 51020, 49885, 51032, 32, 51068, 48152, 51201, 51064, 32,
      51116, 47308, 50752, 32, 51312, 47532, 48277, 51012, 32, 44256, 47140, 54616, 49464, 50836, 10],
     [32, 32, 32, 32, 51, 46, 32, 49704, 44200, 51652, 32, 50508, 47112, 47476, 44592, 32, 50976,
      48156, 32, 50836, 49548, 44620, 51648, 32, 52286, 50500, 45236, 49464, 50836, 10],
     [32, 32, 32, 32, 52, 46, 32, 54620, 44397, 32, 54617, 44368, 32, 44553, 49885, 51032, 32, 53945,
      49457, 51012, 32, 44256, 47140, 54616, 49464, 50836, 10],
     [10],
     [32, 32, 32, 32, 51452, 50836, 32, 54869, 51064, 32, 50508, 47112, 47476, 44592, 58, 32]]"

definition image_prompt_1 :: pystr where
  "image_prompt_1 = concat
    [[10],
     [10],
     [32, 32, 32, 32, 45796, 51020, 32, 74, 83, 79, 78, 32, 54805, 49885, 51004, 47196, 32, 47588,
      50864, 32, 49345, 49464, 54616, 44172, 32, 51025, 45813, 54644, 51452, 49464, 50836, 58, 10],
     [32, 32, 32, 32, 123, 10],
     [32, 32, 32, 32, 32, 32, 32, 32, 34, 109, 101, 110, 117, 95, 105, 116, 101, 109, 115, 34, 58, 32,
      91, 10],
     [32, 32, 32, 32, 32, 32, 32, 32, 32, 32, 32, 32, 123, 10],
     [32, 32, 32, 32, 32, 32, 32, 32, 32, 32, 32, 32, 32, 32, 32, 32, 34, 110, 97, 109, 101, 34, 58,
      32, 34, 51020, 49885, 47749, 34, 44, 10],
     [32, 32, 32, 32, 32, 32, 32, 32, 32, 32, 32, 32, 32, 32, 32, 32, 34, 105, 110, 103, 114, 101,
      100, 105, 101, 110, 116, 115, 34, 58, 32, 91, 34, 51452, 51116, 47308, 49, 34, 44, 32, 34,
      51452, 51116, 47308, 50, 34, 44, 32, 34, 48512, 51116, 47308, 49, 34, 44, 32, 46, 46, 46, 93,
      44, 10],
     [32, 32, 32, 32, 32, 32, 32, 32, 32, 32, 32, 32, 32, 32, 32, 32, 34, 99, 111, 111, 107, 105, 110,
      103, 95, 109, 101, 116, 104, 111, 100, 34, 58, 32, 34, 51312, 47532, 32, 48169, 48277, 34, 44,
      10],
     [32, 32, 32, 32, 32, 32, 32, 32, 32, 32, 32, 32, 32, 32, 32, 32, 34, 97, 108, 108, 101, 114, 103,
      101, 110, 115, 34, 58, 32, 91, 10],
     [32, 32, 32, 32, 32, 32, 32, 32, 32, 32, 32, 32, 32, 32, 32, 32, 32, 32, 32, 32, 123, 10],
     [32, 32, 32, 32, 32, 32, 32, 32, 32, 32, 32, 32, 32, 32, 32, 32, 32, 32, 32, 32, 32, 32, 32, 32,
      34, 97, 108, 108, 101, 114, 103, 101, 110, 34, 58, 32, 34, 50508, 47112, 47476, 44592, 32,
      50976, 48156, 32, 47932, 51656, 34, 44, 10],
     [32, 32, 32, 32, 32, 32, 32, 32, 32, 32, 32, 32, 32, 32, 32, 32, 32, 32, 32, 32, 32, 32, 32, 32,
      34, 115, 111, 117, 114, 99, 101, 34, 58, 32, 34, 50612, 46500, 32, 51116, 47308, 50640, 49436,
      32, 50976, 47000, 34, 44, 10],
     [32, 32, 32, 32, 32, 32, 32, 32, 32, 32, 32, 32, 32, 32, 32, 32, 32, 32, 32, 32, 32, 32, 32, 32,
      34, 114, 105, 115, 107, 95, 108, 101, 118, 101, 108, 34, 58, 32, 34, 44256, 46020, 47, 51473,
      46321, 46020, 47, 44221, 46020, 34, 44, 10],
     [32, 32, 32, 32, 32, 32, 32, 32, 32, 32, 32, 32, 32, 32, 32, 32, 32, 32, 32, 32, 32, 32, 32, 32,
      34, 104, 105, 100, 100, 101, 110, 34, 58, 32, 116, 114, 117, 101, 47, 102, 97, 108, 115, 101,
      44, 10],
     [32, 32, 32, 32, 32, 32, 32, 32, 32, 32, 32, 32, 32, 32, 32, 32, 32, 32, 32, 32, 32, 32, 32, 32,
      34, 99, 114, 111, 115, 115, 95, 99, 111, 110, 116, 97, 109, 105, 110, 97, 116, 105, 111, 110,
      34, 58, 32, 116, 114, 117, 101, 47, 102, 97, 108, 115, 101, 10],
     [32, 32, 32, 32, 32, 32, 32, 32, 32, 32, 32, 32, 32, 32, 32, 32, 32, 32, 32, 32, 125, 10],
     [32, 32, 32, 32, 32, 32, 32, 32, 32, 32, 32, 32, 32, 32, 32, 32, 93, 44, 10],
     [32, 32, 32, 32, 32, 32, 32, 32, 32, 32, 32, 32, 32, 32, 32, 32, 34, 110, 117, 116, 114, 105,
      116, 105, 111, 110, 95, 110, 111, 116, 101, 115, 34, 58, 32, 34, 50689, 50577, 54617, 51201, 32,
      53945, 51669, 34, 10],
     [32, 32, 32, 32, 32, 32, 32, 32, 32, 32, 32, 32, 125, 10],
     [32, 32, 32, 32, 32, 32, 32, 32, 93, 44, 10],
     [32, 32, 32, 32, 32, 32, 32, 32, 34, 111, 118, 101, 114, 97, 108, 108, 95, 97, 115, 115, 101,
      115, 115, 109, 101, 110, 116, 34, 58, 32, 123, 10],
     [32, 32, 32, 32, 32, 32, 32, 32, 32, 32, 32, 32, 34, 116, 111, 116, 97, 108, 95, 97, 108, 108,
      101, 114, 103, 101, 110, 115, 34, 58, 32, 91, 34, 51204, 52404, 32, 50508, 47112, 47476, 44592,
      32, 47785, 47197, 34, 93, 44, 10],
     [32, 32, 32, 32, 32, 32, 32, 32, 32, 32, 32, 32, 34, 104, 105, 103, 104, 95, 114, 105, 115, 107,
      95, 105, 116, 101, 109, 115, 34, 58, 32, 91, 34, 44256, 50948, 54744, 32, 54637, 47785, 46308,
      34, 93, 44, 10],
     [32, 32, 32, 32, 32, 32, 32, 32, 32, 32, 32, 32, 34, 104, 105, 100, 100, 101, 110, 95, 97, 108,
      108, 101, 114, 103, 101, 110, 115, 34, 58, 32, 91, 34, 49704, 44200, 51652, 32, 50508, 47112,
      47476, 44592, 32, 50976, 48156, 32, 50836, 49548, 34, 93, 44, 10],
     [32, 32, 32, 32, 32, 32, 32, 32, 32, 32, 32, 32, 34, 115, 97, 102, 101, 116, 121, 95, 110, 111,
      116, 101, 115, 34, 58, 32, 34, 51204, 48152, 51201, 51064, 32, 50504, 51204, 32, 51452, 51032,
      49324, 54637, 34, 10],
     [32, 32, 32, 32, 32, 32, 32, 32, 125, 44, 10],
     [32, 32, 32, 32, 32, 32, 32, 32, 34, 114, 101, 99, 111, 109, 109, 101, 110, 100, 97, 116, 105,
      111, 110, 115, 34, 58, 32, 123, 10],
     [32, 32, 32, 32, 32, 32, 32, 32, 32, 32, 32, 32, 34, 115, 117, 98, 115, 116, 105, 116, 117, 116,
      105, 111, 110, 115, 34, 58, 32, 91, 34, 45824, 52404, 32, 44032, 45733, 54620, 32, 47700, 45684,
      34, 93, 44, 10],
     [32, 32, 32, 32, 32, 32, 32, 32, 32, 32, 32, 32, 34, 112, 114, 101, 112, 97, 114, 97, 116, 105,
      111, 110, 95, 116, 105, 112, 115, 34, 58, 32, 91, 34, 51312, 47532, 49884, 32, 51452, 51032,
      49324, 54637, 34, 93, 44, 10],
     [32, 32, 32, 32, 32, 32, 32, 32, 32, 32, 32, 32, 34, 115, 101, 114, 118, 105, 110, 103, 95, 103,
      117, 105, 100, 101, 108, 105, 110, 101, 115, 34, 58, 32, 91, 34, 48176, 49885, 49884, 32, 51452,
      51032, 49324, 54637, 34, 93, 10],
     [32, 32, 32, 32, 32, 32, 32, 32, 125, 10],
     [32, 32, 32, 32, 125, 10],
     [10],
     [32, 32, 32, 32, 51473, 50836, 58, 32, 10],
     [32, 32, 32, 32, 45, 32, 51312, 48120, 47308, 44, 32, 49548, 49828, 44, 32, 50577, 45392, 50640,
      32, 49704, 44200, 51652, 32, 50508, 47112, 47476, 44592, 32, 49457, 48516, 46020, 32, 52286,
      50500, 51452, 49464, 50836, 10],
     [32, 32, 32, 32, 45, 32, 44368, 52264, 32, 50724, 50684, 32, 44032, 45733, 49457, 46020, 32,
      54217, 44032, 54644, 51452, 49464, 50836, 10],
     [32, 32, 32, 32, 45, 32, 54620, 44397, 32, 51020, 49885, 51032, 32, 53945, 49457, 40, 44256,
      52628, 51109, 44, 32, 46108, 51109, 44, 32, 49352, 50864, 51219, 32, 46321, 41, 51012, 32,
      44256, 47140, 54616, 49464, 50836, 10],
     [32, 32, 32, 32]]"

definition image_prompt :: pystr where
  "image_prompt = image_prompt_0 @ catalog_text @ image_prompt_1"

definition text_prompt_0 :: pystr where
  "text_prompt_0 = concat
    [[10],
     [32, 32, 32, 32, 45817, 49888, 51008, 32, 54617, 44368, 32, 44553, 49885, 32, 50689, 50577,
      49324, 51060, 51088, 32, 50508, 47112, 47476, 44592, 32, 51204, 47928, 44032, 51077, 45768,
      45796, 46, 10],
     [32, 32, 32, 32, 45796, 51020, 32, 53581, 49828, 53944, 40, 44553, 49885, 32, 47700, 45684, 32,
      46608, 45716, 32, 49885, 45800, 54364, 41, 47484, 32, 48516, 49437, 54616, 50668, 32, 50508,
      47112, 47476, 44592, 32, 51221, 48372, 47484, 32, 52628, 52636, 54644, 51452, 49464, 50836, 46,
      10],
     [10],
     [32, 32, 32, 32, 53581, 49828, 53944, 58, 32]]"

definition text_prompt_1 :: pystr where
  "text_prompt_1 = concat
    [[10],
     [10],
     [32, 32, 32, 32, 51452, 50836, 32, 54869, 51064, 32, 50508, 47112, 47476, 44592, 58, 32]]"

definition text_prompt_2 :: pystr where
  "text_prompt_2 = concat
    [[10],
     [10],
     [32, 32, 32, 32, 45796, 51020, 32, 74, 83, 79, 78, 32, 54805, 49885, 51004, 47196, 32, 49345,
      49464, 54616, 44172, 32, 51025, 45813, 54644, 51452, 49464, 50836, 58, 10],
     [32, 32, 32, 32, 123, 10],
     [32, 32, 32, 32, 32, 32, 32, 32, 34, 105, 100, 101, 110, 116, 105, 102, 105, 101, 100, 95, 109,
      101, 110, 117, 115, 34, 58, 32, 91, 10],
     [32, 32, 32, 32, 32, 32, 32, 32, 32, 32, 32, 32, 123, 10],
     [32, 32, 32, 32, 32, 32, 32, 32, 32, 32, 32, 32, 32, 32, 32, 32, 34, 109, 101, 110, 117, 95, 110,
      97, 109, 101, 34, 58, 32, 34, 47700, 45684, 47749, 34, 44, 10],
     [32, 32, 32, 32, 32, 32, 32, 32, 32, 32, 32, 32, 32, 32, 32, 32, 34, 108, 105, 107, 101, 108,
      121, 95, 105, 110, 103, 114, 101, 100, 105, 101, 110, 116, 115, 34, 58, 32, 91, 34, 52628,
      51221, 32, 51116, 47308, 46308, 34, 93, 44, 10],
     [32, 32, 32, 32, 32, 32, 32, 32, 32, 32, 32, 32, 32, 32, 32, 32, 34, 97, 108, 108, 101, 114, 103,
      101, 110, 95, 97, 110, 97, 108, 121, 115, 105, 115, 34, 58, 32, 91, 10],
     [32, 32, 32, 32, 32, 32, 32, 32, 32, 32, 32, 32, 32, 32, 32, 32, 32, 32, 32, 32, 123, 10],
     [32, 32, 32, 32, 32, 32, 32, 32, 32, 32, 32, 32, 32, 32, 32, 32, 32, 32, 32, 32, 32, 32, 32, 32,
      34, 97, 108, 108, 101, 114, 103, 101, 110, 34, 58, 32, 34, 50508, 47112, 47476, 44592, 32,
      50976, 48156, 32, 47932, 51656, 34, 44, 10],
     [32, 32, 32, 32, 32, 32, 32, 32, 32, 32, 32, 32, 32, 32, 32, 32, 32, 32, 32, 32, 32, 32, 32, 32,
      34, 99, 111, 110, 102, 105, 100, 101, 110, 99, 101, 34, 58, 32, 34, 54869, 49892, 54632, 47,
      44032, 45733, 49457, 45458, 51020, 47, 44032, 45733, 49457, 51080, 51020, 34, 44, 10],
     [32, 32, 32, 32, 32, 32, 32, 32, 32, 32, 32, 32, 32, 32, 32, 32, 32, 32, 32, 32, 32, 32, 32, 32,
      34, 115, 111, 117, 114, 99, 101, 95, 105, 110, 103, 114, 101, 100, 105, 101, 110, 116, 34, 58,
      32, 34, 50976, 47000, 32, 51116, 47308, 34, 44, 10],
     [32, 32, 32, 32, 32, 32, 32, 32, 32, 32, 32, 32, 32, 32, 32, 32, 32, 32, 32, 32, 32, 32, 32, 32,
      34, 114, 105, 115, 107, 95, 108, 101, 118, 101, 108, 34, 58, 32, 34, 44256, 46020, 47, 51473,
      46321, 46020, 47, 44221, 46020, 34, 44, 10],
     [32, 32, 32, 32, 32, 32, 32, 32, 32, 32, 32, 32, 32, 32, 32, 32, 32, 32, 32, 32, 32, 32, 32, 32,
      34, 110, 111, 116, 101, 115, 34, 58, 32, 34, 52628, 44032, 32, 49444, 47749, 34, 10],
     [32, 32, 32, 32, 32, 32, 32, 32, 32, 32, 32, 32, 32, 32, 32, 32, 32, 32, 32, 32, 125, 10],
     [32, 32, 32, 32, 32, 32, 32, 32, 32, 32, 32, 32, 32, 32, 32, 32, 93, 10],
     [32, 32, 32, 32, 32, 32, 32, 32, 32, 32, 32, 32, 125, 10],
     [32, 32, 32, 32, 32, 32, 32, 32, 93, 44, 10],
     [32, 32, 32, 32, 32, 32, 32, 32, 34, 115, 117, 109, 109, 97, 114, 121, 34, 58, 32, 123, 10],
     [32, 32, 32, 32, 32, 32, 32, 32, 32, 32, 32, 32, 34, 116, 111, 116, 97, 108, 95, 97, 108, 108,
      101, 114, 103, 101, 110, 115, 95, 102, 111, 117, 110, 100, 34, 58, 32, 91, 34, 48156, 44204,
      46108, 32, 47784, 46304, 32, 50508, 47112, 47476, 44592, 34, 93, 44, 10],
     [32, 32, 32, 32, 32, 32, 32, 32, 32, 32, 32, 32, 34, 104, 105, 103, 104, 95, 99, 111, 110, 102,
      105, 100, 101, 110, 99, 101, 95, 97, 108, 108, 101, 114, 103, 101, 110, 115, 34, 58, 32, 91, 34,
      54869, 49892, 54620, 32, 50508, 47112, 47476, 44592, 34, 93, 44, 10],
     [32, 32, 32, 32, 32, 32, 32, 32, 32, 32, 32, 32, 34, 112, 111, 115, 115, 105, 98, 108, 101, 95,
      97, 108, 108, 101, 114, 103, 101, 110, 115, 34, 58, 32, 91, 34, 44032, 45733, 49457, 32, 51080,
      45716, 32, 50508, 47112, 47476, 44592, 34, 93, 44, 10],
     [32, 32, 32, 32, 32, 32, 32, 32, 32, 32, 32, 32, 34, 109, 101, 110, 117, 95, 115, 97, 102, 101,
      116, 121, 95, 115, 99, 111, 114, 101, 34, 58, 32, 34, 49, 45, 49, 48, 51216, 34, 44, 10],
     [32, 32, 32, 32, 32, 32, 32, 32, 32, 32, 32, 32, 34, 115, 112, 101, 99, 105, 97, 108, 95, 119,
      97, 114, 110, 105, 110, 103, 115, 34, 58, 32, 91, 34, 53945, 48324, 32, 51452, 51032, 49324,
      54637, 34, 93, 10],
     [32, 32, 32, 32, 32, 32, 32, 32, 125, 44, 10],
     [32, 32, 32, 32, 32, 32, 32, 32, 34, 100, 101, 116, 97, 105, 108, 101, 100, 95, 114, 101, 99,
      111, 109, 109, 101, 110, 100, 97, 116, 105, 111, 110, 115, 34, 58, 32, 123, 10],
     [32, 32, 32, 32, 32, 32, 32, 32, 32, 32, 32, 32, 34, 102, 111, 114, 95, 97, 108, 108, 101, 114,
      103, 105, 99, 95, 115, 116, 117, 100, 101, 110, 116, 115, 34, 58, 32, 91, 34, 50508, 47112,
      47476, 44592, 32, 54617, 49373, 51012, 32, 50948, 54620, 32, 51312, 50616, 34, 93, 44, 10],
     [32, 32, 32, 32, 32, 32, 32, 32, 32, 32, 32, 32, 34, 102, 111, 114, 95, 107, 105, 116, 99, 104,
      101, 110, 95, 115, 116, 97, 102, 102, 34, 58, 32, 91, 34, 51312, 47532, 49892, 32, 51649, 50896,
      51012, 32, 50948, 54620, 32, 51312, 50616, 34, 93, 44, 10],
     [32, 32, 32, 32, 32, 32, 32, 32, 32, 32, 32, 32, 34, 97, 108, 116, 101, 114, 110, 97, 116, 105,
      118, 101, 95, 111, 112, 116, 105, 111, 110, 115, 34, 58, 32, 91, 34, 45824, 52404, 32, 47700,
      45684, 32, 51228, 50504, 34, 93, 10],
     [32, 32, 32, 32, 32, 32, 32, 32, 125, 10],
     [32, 32, 32, 32, 125, 10],
     [10],
     [32, 32, 32, 32, 52280, 44256, 49324, 54637, 58, 10],
     [32, 32, 32, 32, 45, 32, 54620, 44397, 32, 51020, 49885, 51032, 32, 51068, 48152, 51201, 51064,
      32, 51116, 47308, 47484, 32, 44256, 47140, 54616, 49464, 50836, 10],
     [32, 32, 32, 32, 45, 32, 49704, 44200, 51652, 32, 50508, 47112, 47476, 44592, 32, 49457, 48516,
      40, 49548, 49828, 44, 32, 50577, 45392, 32, 46321, 41, 46020, 32, 52628, 51221, 54616, 49464,
      50836, 10],
     [32, 32, 32, 32, 45, 32, 51312, 47532, 32, 44284, 51221, 50640, 49436, 51032, 32, 44368, 52264,
      32, 50724, 50684, 32, 44032, 45733, 49457, 46020, 32, 50616, 44553, 54616, 49464, 50836, 10],
     [32, 32, 32, 32]]"

definition text_prompt :: "pystr \<Rightarrow> pystr" where
  "text_prompt text = text_prompt_0 @ text @ text_prompt_1 @ catalog_text @ text_prompt_2"

definition report_prompt_0 :: pystr where
  "report_prompt_0 = concat
    [[10],
     [32, 32, 32, 32, 45817, 49888, 51008, 32, 54617, 44368, 32, 48372, 44148, 44368, 49324, 51060,
      51088, 32, 50508, 47112, 47476, 44592, 32, 51204, 47928, 44032, 51077, 45768, 45796, 46, 10],
     [32, 32, 32, 32, 45796, 51020, 32, 48516, 49437, 32, 44208, 44284, 47484, 32, 48148, 53461,
      51004, 47196, 32, 54617, 44368, 32, 44553, 49885, 32, 50508, 47112, 47476, 44592, 32, 51333,
      54633, 32, 48372, 44256, 49436, 47484, 32, 51089, 49457, 54644, 51452, 49464, 50836, 46, 10],
     [10],
     [32, 32, 32, 32, 48516, 49437, 32, 45824, 49345, 58, 32]]"

definition report_prompt_1 :: pystr where
  "report_prompt_1 = concat
    [[10],
     [32, 32, 32, 32, 48516, 49437, 32, 44208, 44284, 58, 32]]"

definition report_prompt_2 :: pystr where
  "report_prompt_2 = concat
    [[10],
     [10],
     [32, 32, 32, 32, 48372, 44256, 49436, 45716, 32, 45796, 51020, 32, 54805, 49885, 51004, 47196,
      32, 51089, 49457, 54644, 51452, 49464, 50836, 58, 10],
     [10],
     [32, 32, 32, 32, 9552, 9552, 9552, 9552, 9552, 9552, 9552, 9552, 9552, 9552, 9552, 9552, 9552,
      9552, 9552, 9552, 9552, 9552, 9552, 9552, 9552, 9552, 9552, 9552, 9552, 9552, 9552, 9552, 9552,
      9552, 9552, 9552, 9552, 9552, 9552, 9552, 9552, 9552, 9552, 9552, 9552, 9552, 9552, 9552, 9552,
      9552, 9552, 9552, 9552, 9552, 9552, 9552, 9552, 9552, 9552, 9552, 9552, 9552, 9552, 9552, 9552,
      9552, 9552, 9552, 9552, 9552, 9552, 10],
     [32, 32, 32, 32, 32, 32, 32, 32, 32, 32, 32, 32, 32, 32, 32, 32, 32, 32, 32, 32, 32, 32, 32, 32,
      54617, 44368, 32, 44553, 49885, 32, 50508, 47112, 47476, 44592, 32, 51333, 54633, 32, 48516,
      49437, 32, 48372, 44256, 49436, 10],
     [32, 32, 32, 32, 9552, 9552, 9552, 9552, 9552, 9552, 9552, 9552, 9552, 9552, 9552, 9552, 9552,
      9552, 9552, 9552, 9552, 9552, 9552, 9552, 9552, 9552, 9552, 9552, 9552, 9552, 9552, 9552, 9552,
      9552, 9552, 9552, 9552, 9552, 9552, 9552, 9552, 9552, 9552, 9552, 9552, 9552, 9552, 9552, 9552,
      9552, 9552, 9552, 9552, 9552, 9552, 9552, 9552, 9552, 9552, 9552, 9552, 9552, 9552, 9552, 9552,
      9552, 9552, 9552, 9552, 9552, 9552, 10],
     [32, 32, 32, 32, 10],
     [32, 32, 32, 32, 128197, 32, 48516, 49437, 32, 51221, 48372, 10],
     [32, 32, 32, 32, 45, 32, 48516, 49437, 51068, 49884, 58, 32]]"

definition report_prompt_3 :: pystr where
  "report_prompt_3 = concat
    [[10],
     [32, 32, 32, 32, 45, 32, 48516, 49437, 45824, 49345, 58, 32]]"

definition report_prompt_4 :: pystr where
  "report_prompt_4 = concat
    [[10],
     [32, 32, 32, 32, 10],
     [32, 32, 32, 32, 128202, 32, 48516, 49437, 32, 50836, 50557, 10],
     [32, 32, 32, 32, 91, 51204, 52404, 51201, 51064, 32, 48516, 49437, 32, 44208, 44284, 32, 50836,
      50557, 32, 45, 32, 51, 45, 52, 51460, 93, 10],
     [32, 32, 32, 32, 10],
     [32, 32, 32, 32, 128680, 32, 50508, 47112, 47476, 44592, 32, 50948, 54744, 46020, 32, 54217,
      44032, 10],
     [32, 32, 32, 32, 10],
     [32, 32, 32, 32, 12304, 44256, 50948, 54744, 32, 50508, 47112, 47476, 44592, 12305, 10],
     [32, 32, 32, 32, 91, 49373, 47749, 51012, 32, 50948, 54801, 54624, 32, 49688, 32, 51080, 45716,
      32, 50508, 47112, 47476, 44592, 32, 49345, 49464, 32, 49444, 47749, 93, 10],
     [32, 32, 32, 32, 10],
     [32, 32, 32, 32, 12304, 51473, 46321, 46020, 32, 50948, 54744, 32, 50508, 47112, 47476, 44592,
      12305, 10],
     [32, 32, 32, 32, 91, 51452, 51032, 44032, 32, 54596, 50836, 54620, 32, 50508, 47112, 47476,
      44592, 32, 49345, 49464, 32, 49444, 47749, 93, 10],
     [32, 32, 32, 32, 10],
     [32, 32, 32, 32, 12304, 44221, 46020, 32, 50948, 54744, 32, 50508, 47112, 47476, 44592, 12305, 10],
     [32, 32, 32, 32, 91, 44288, 47532, 32, 44032, 45733, 54620, 32, 50508, 47112, 47476, 44592, 32,
      49444, 47749, 93, 10],
     [32, 32, 32, 32, 10],
     [32, 32, 32, 32, 128269, 32, 49345, 49464, 32, 48516, 49437, 32, 44208, 44284, 10],
     [32, 32, 32, 32, 10],
     [32, 32, 32, 32, 91, 44033, 32, 47700, 45684, 48324, 32, 49345, 49464, 32, 48516, 49437, 93, 10],
     [32, 32, 32, 32, 10],
     [32, 32, 32, 32, 9888, 65039, 32, 49704, 44200, 51652, 32, 50508, 47112, 47476, 44592, 32, 50976,
      48156, 32, 50836, 49548, 10],
     [32, 32, 32, 32, 91, 45576, 50640, 32, 46916, 51648, 32, 50506, 51648, 47564, 32, 51452, 51032,
      54644, 50556, 32, 54624, 32, 50836, 49548, 46308, 93, 10],
     [32, 32, 32, 32, 10],
     [32, 32, 32, 32, 128161, 32, 45824, 52376, 32, 48169, 50504, 10],
     [32, 32, 32, 32, 10],
     [32, 32, 32, 32, 12304, 51593, 49884, 32, 49884, 54665, 49324, 54637, 12305, 10],
     [32, 32, 32, 32, 49, 46, 32, 91, 44396, 52404, 51201, 51064, 32, 51312, 52824, 49324, 54637, 93,
      10],
     [32, 32, 32, 32, 50, 46, 32, 91, 44396, 52404, 51201, 51064, 32, 51312, 52824, 49324, 54637, 93,
      10],
     [32, 32, 32, 32, 10],
     [32, 32, 32, 32, 12304, 50696, 48169, 32, 51312, 52824, 12305, 10],
     [32, 32, 32, 32, 45, 32, 91, 51312, 47532, 49892, 50640, 49436, 51032, 32, 50696, 48169, 32,
      51312, 52824, 93, 10],
     [32, 32, 32, 32, 45, 32, 91, 48176, 49885, 32, 49884, 32, 51452, 51032, 49324, 54637, 93, 10],
     [32, 32, 32, 32, 45, 32, 91, 54617, 49373, 32, 51648, 46020, 32, 49324, 54637, 93, 10],
     [32, 32, 32, 32, 10],
     [32, 32, 32, 32, 12304, 51025, 44553, 32, 45824, 51025, 32, 54532, 47196, 53664, 53084, 12305, 10],
     [32, 32, 32, 32, 49, 46, 32, 44221, 48120, 54620, 32, 51613, 49345, 58, 32, 91, 45824, 52376,
      48277, 93, 10],
     [32, 32, 32, 32, 50, 46, 32, 51473, 46321, 46020, 32, 51613, 49345, 58, 32, 91, 45824, 52376,
      48277, 93, 10],
     [32, 32, 32, 32, 51, 46, 32, 49900, 44033, 54620, 32, 51613, 49345, 58, 32, 91, 45824, 52376,
      48277, 93, 10],
     [32, 32, 32, 32, 10],
     [32, 32, 32, 32, 128203, 32, 45824, 52404, 32, 47700, 45684, 32, 51228, 50504, 10],
     [32, 32, 32, 32, 91, 50508, 47112, 47476, 44592, 32, 54617, 49373, 51012, 32, 50948, 54620, 32,
      45824, 52404, 32, 47700, 45684, 32, 51228, 50504, 93, 10],
     [32, 32, 32, 32, 10],
     [32, 32, 32, 32, 128222, 32, 48708, 49345, 32, 50672, 46973, 47581, 10],
     [32, 32, 32, 32, 45, 32, 48372, 44148, 49892, 58, 32, 45236, 49440, 32, 91, 48264, 54840, 93, 10],
     [32, 32, 32, 32, 45, 32, 49, 49, 57, 32, 44396, 44553, 45824, 58, 32, 49, 49, 57, 10],
     [32, 32, 32, 32, 45, 32, 54617, 44368, 32, 51064, 44540, 32, 48337, 50896, 58, 32, 91, 48337,
      50896, 47749, 93, 32, 91, 51204, 54868, 48264, 54840, 93, 10],
     [32, 32, 32, 32, 45, 32, 51025, 44553, 51032, 47308, 51221, 48372, 49468, 53552, 58, 32, 49, 51,
      51, 57, 10],
     [32, 32, 32, 32, 10],
     [32, 32, 32, 32, 9989, 32, 52404, 53356, 47532, 49828, 53944, 10],
     [32, 32, 32, 32, 9633, 32, 50508, 47112, 47476, 44592, 32, 54617, 49373, 32, 47749, 45800, 32,
      54869, 51064, 10],
     [32, 32, 32, 32, 9633, 32, 45824, 52404, 32, 44553, 49885, 32, 51456, 48708, 10],
     [32, 32, 32, 32, 9633, 32, 51312, 47532, 49892, 32, 51649, 50896, 32, 48652, 47532, 54609, 10],
     [32, 32, 32, 32, 9633, 32, 45812, 51076, 44368, 49324, 32, 53685, 48372, 10],
     [32, 32, 32, 32, 9633, 32, 48372, 44148, 49892, 32, 51032, 50557, 54408, 32, 54869, 51064, 10],
     [32, 32, 32, 32, 10],
     [32, 32, 32, 32, 128172, 32, 52628, 44032, 32, 44428, 44256, 49324, 54637, 10],
     [32, 32, 32, 32, 91, 51204, 47928, 44032, 47196, 49436, 51032, 32, 52628, 44032, 32, 51312,
      50616, 93, 10],
     [32, 32, 32, 32, 10],
     [32, 32, 32, 32, 9552, 9552, 9552, 9552, 9552, 9552, 9552, 9552, 9552, 9552, 9552, 9552, 9552,
      9552, 9552, 9552, 9552, 9552, 9552, 9552, 9552, 9552, 9552, 9552, 9552, 9552, 9552, 9552, 9552,
      9552, 9552, 9552, 9552, 9552, 9552, 9552, 9552, 9552, 9552, 9552, 9552, 9552, 9552, 9552, 9552,
      9552, 9552, 9552, 9552, 9552, 9552, 9552, 9552, 9552, 9552, 9552, 9552, 9552, 9552, 9552, 9552,
      9552, 9552, 9552, 9552, 9552, 9552, 10],
     [32, 32, 32, 32, 10],
     [32, 32, 32, 32, 51089, 49457, 32, 49884, 32, 51452, 51032, 49324, 54637, 58, 10],
     [32, 32, 32, 32, 49, 46, 32, 51032, 54617, 51201, 51004, 47196, 32, 51221, 54869, 54616, 47732,
      49436, 46020, 32, 51060, 54644, 54616, 44592, 32, 49789, 44172, 32, 51089, 49457, 10],
     [32, 32, 32, 32, 50, 46, 32, 49892, 51228, 32, 54617, 44368, 32, 54788, 51109, 50640, 49436, 32,
      48148, 47196, 32, 54876, 50857, 32, 44032, 45733, 54620, 32, 44396, 52404, 51201, 51064, 32,
      45236, 50857, 10],
     [32, 32, 32, 32, 51, 46, 32, 50948, 54744, 46020, 50640, 32, 46384, 47480, 32, 50864, 49440,
      49692, 50948, 32, 47749, 54869, 55176, 32, 44396, 48516, 10],
     [32, 32, 32, 32, 52, 46, 32, 54620, 44397, 32, 54617, 44368, 32, 44553, 49885, 32, 54872, 44221,
      50640, 32, 47582, 45716, 32, 54788, 49892, 51201, 51064, 32, 51312, 50616, 10],
     [32, 32, 32, 32]]"

text \<open>
  \<open>results_summary\<close> is \<open>json.dumps(analysis_results, ensure_ascii=False, indent=2)\<close> and
  \<open>now\<close> is \<open>datetime.now().strftime(...)\<close>; both are handed in by the caller.
\<close>

definition report_prompt :: "pystr \<Rightarrow> pystr \<Rightarrow> pystr \<Rightarrow> pystr" where
  "report_prompt source_type results_summary now =
     report_prompt_0 @ source_type @ report_prompt_1 @ results_summary @ report_prompt_2 @ now @
     report_prompt_3 @ source_type @ report_prompt_4"

definition medical_prompt_0 :: pystr where
  "medical_prompt_0 = concat
    [[10],
     [32, 32, 32, 32, 45817, 49888, 51008, 32, 49548, 50500, 32, 50508, 47112, 47476, 44592, 32,
      51204, 47928, 51032, 51077, 45768, 45796, 46, 10],
     [32, 32, 32, 32]]"

definition medical_prompt_1 :: pystr where
  "medical_prompt_1 = concat
    [[32, 50508, 47112, 47476, 44592, 50640, 32, 45824, 54644, 32, 54617, 44368, 32, 44288, 44228,
      51088, 46308, 51060, 32, 50508, 50500, 50556, 32, 54624, 32, 51032, 54617, 51201, 32, 51221,
      48372, 47484, 32, 51228, 44277, 54644, 51452, 49464, 50836, 46, 10],
     [10],
     [32, 32, 32, 32, 45796, 51020, 32, 74, 83, 79, 78, 32, 54805, 49885, 51004, 47196, 32, 51025,
      45813, 54644, 51452, 49464, 50836, 58, 10],
     [32, 32, 32, 32, 123, 10],
     [32, 32, 32, 32, 32, 32, 32, 32, 34, 109, 101, 100, 105, 99, 97, 108, 95, 110, 97, 109, 101, 34,
      58, 32, 34, 51032, 54617, 51201, 32, 47749, 52845, 34, 44, 10],
     [32, 32, 32, 32, 32, 32, 32, 32, 34, 112, 114, 101, 118, 97, 108, 101, 110, 99, 101, 34, 58, 32,
      34, 54620, 44397, 32, 54617, 49373, 32, 50976, 48337, 47456, 34, 44, 10],
     [32, 32, 32, 32, 32, 32, 32, 32, 34, 109, 101, 99, 104, 97, 110, 105, 115, 109, 34, 58, 32, 34,
      50508, 47112, 47476, 44592, 32, 48156, 49373, 32, 44592, 51204, 32, 40, 49789, 44172, 32, 49444,
      47749, 41, 34, 44, 10],
     [32, 32, 32, 32, 32, 32, 32, 32, 34, 115, 121, 109, 112, 116, 111, 109, 115, 34, 58, 32, 123, 10],
     [32, 32, 32, 32, 32, 32, 32, 32, 32, 32, 32, 32, 34, 105, 109, 109, 101, 100, 105, 97, 116, 101,
      34, 58, 32, 91, 34, 51593, 44033, 51201, 32, 51613, 49345, 46308, 34, 93, 44, 10],
     [32, 32, 32, 32, 32, 32, 32, 32, 32, 32, 32, 32, 34, 100, 101, 108, 97, 121, 101, 100, 34, 58,
      32, 91, 34, 51648, 50672, 49457, 32, 51613, 49345, 46308, 34, 93, 44, 10],
     [32, 32, 32, 32, 32, 32, 32, 32, 32, 32, 32, 32, 34, 115, 101, 118, 101, 114, 101, 34, 58, 32,
      91, 34, 49900, 44033, 54620, 32, 51613, 49345, 46308, 34, 93, 10],
     [32, 32, 32, 32, 32, 32, 32, 32, 125, 44, 10],
     [32, 32, 32, 32, 32, 32, 32, 32, 34, 111, 110, 115, 101, 116, 95, 116, 105, 109, 101, 34, 58, 32,
      34, 51613, 49345, 32, 48156, 54788, 32, 49884, 44036, 34, 44, 10],
     [32, 32, 32, 32, 32, 32, 32, 32, 34, 99, 114, 111, 115, 115, 95, 114, 101, 97, 99, 116, 105, 118,
      105, 116, 121, 34, 58, 32, 91, 34, 44368, 52264, 32, 48152, 51025, 32, 44032, 45733, 32, 47932,
      51656, 46308, 34, 93, 44, 10],
     [32, 32, 32, 32, 32, 32, 32, 32, 34, 100, 105, 97, 103, 110, 111, 115, 105, 115, 34, 58, 32, 34,
      51652, 45800, 32, 48169, 48277, 34, 44, 10],
     [32, 32, 32, 32, 32, 32, 32, 32, 34, 116, 114, 101, 97, 116, 109, 101, 110, 116, 34, 58, 32, 123,
      10],
     [32, 32, 32, 32, 32, 32, 32, 32, 32, 32, 32, 32, 34, 101, 109, 101, 114, 103, 101, 110, 99, 121,
      34, 58, 32, 34, 51025, 44553, 32, 52376, 52824, 34, 44, 10],
     [32, 32, 32, 32, 32, 32, 32, 32, 32, 32, 32, 32, 34, 109, 101, 100, 105, 99, 97, 116, 105, 111,
      110, 34, 58, 32, 34, 49324, 50857, 32, 44032, 45733, 32, 50557, 47932, 34, 44, 10],
     [32, 32, 32, 32, 32, 32, 32, 32, 32, 32, 32, 32, 34, 108, 111, 110, 103, 95, 116, 101, 114, 109,
      34, 58, 32, 34, 51109, 44592, 32, 44288, 47532, 32, 48169, 48277, 34, 10],
     [32, 32, 32, 32, 32, 32, 32, 32, 125, 44, 10],
     [32, 32, 32, 32, 32, 32, 32, 32, 34, 115, 99, 104, 111, 111, 108, 95, 109, 97, 110, 97, 103, 101,
      109, 101, 110, 116, 34, 58, 32, 123, 10],
     [32, 32, 32, 32, 32, 32, 32, 32, 32, 32, 32, 32, 34, 112, 114, 101, 118, 101, 110, 116, 105, 111,
      110, 34, 58, 32, 91, 34, 54617, 44368, 50640, 49436, 51032, 32, 50696, 48169, 32, 51312, 52824,
      34, 93, 44, 10],
     [32, 32, 32, 32, 32, 32, 32, 32, 32, 32, 32, 32, 34, 109, 111, 110, 105, 116, 111, 114, 105, 110,
      103, 34, 58, 32, 91, 34, 44288, 52272, 32, 54252, 51064, 53944, 34, 93, 44, 10],
     [32, 32, 32, 32, 32, 32, 32, 32, 32, 32, 32, 32, 34, 100, 111, 99, 117, 109, 101, 110, 116, 97,
      116, 105, 111, 110, 34, 58, 32, 91, 34, 54596, 50836, 32, 49436, 47448, 34, 93, 10],
     [32, 32, 32, 32, 32, 32, 32, 32, 125, 44, 10],
     [32, 32, 32, 32, 32, 32, 32, 32, 34, 112, 114, 111, 103, 110, 111, 115, 105, 115, 34, 58, 32, 34,
      50696, 54980, 32, 48143, 32, 49457, 51109, 50640, 32, 46384, 47480, 32, 48320, 54868, 34, 10],
     [32, 32, 32, 32, 125, 10],
     [32, 32, 32, 32]]"

definition medical_prompt :: "pystr \<Rightarrow> pystr" where
  "medical_prompt allergen = medical_prompt_0 @ allergen @ medical_prompt_1"

section \<open>The model client\<close>

text \<open>
  One chat-completion request: \<open>client.chat.completions.create(model=..., messages=[...],
  temperature=..., max_tokens=...)\<close> on a client built from the API key. The message is
  the prompt alone, or the prompt with an image; the image travels as a base64 data URI of
  the uploaded bytes, recorded here by the bytes themselves.
\<close>

datatype content = TextOnly pystr | TextAndImage pystr bytes

record request =
  req_api_key :: pystr
  req_model :: pystr
  req_content :: content
  req_temperature :: rat
  req_max_tokens :: nat

text \<open>
  A response is its list of choices, each the message content (\<open>None\<close> when the message
  carries no text). A call returns a response or raises.
\<close>

datatype response = Response (choices: "pystr option list")

datatype api_outcome = Returned response | Raised exc

text \<open>
  The service is outside the program: \<open>client n req\<close> is what the service answers to
  request \<open>req\<close> when \<open>n\<close> calls were made before it. The world counts the calls made
  and records every \<open>time.sleep\<close>, in seconds.
\<close>

type_synonym client = "nat \<Rightarrow> request \<Rightarrow> api_outcome"

record world =
  calls :: nat
  sleeps :: "nat list"

definition default_model :: pystr where
  "default_model = cp ''gpt-4o-mini''"

definition default_max_retries :: int where
  "default_max_retries = 2"

definition msg_index_error :: pystr where
  "msg_index_error =
    [108, 105, 115, 116, 32, 105, 110, 100, 101, 120, 32, 111, 117, 116, 32, 111, 102, 32, 114, 97,
     110, 103, 101]"

definition msg_none_strip :: pystr where
  "msg_none_strip =
    [39, 78, 111, 110, 101, 84, 121, 112, 101, 39, 32, 111, 98, 106, 101, 99, 116, 32, 104, 97, 115,
     32, 110, 111, 32, 97, 116, 116, 114, 105, 98, 117, 116, 101, 32, 39, 115, 116, 114, 105, 112, 39]"

definition msg_unbound_res :: pystr where
  "msg_unbound_res =
    [99, 97, 110, 110, 111, 116, 32, 97, 99, 99, 101, 115, 115, 32, 108, 111, 99, 97, 108, 32, 118,
     97, 114, 105, 97, 98, 108, 101, 32, 39, 114, 101, 115, 39, 32, 119, 104, 101, 114, 101, 32, 105,
     116, 32, 105, 115, 32, 110, 111, 116, 32, 97, 115, 115, 111, 99, 105, 97, 116, 101, 100, 32,
     119, 105, 116, 104, 32, 97, 32, 118, 97, 108, 117, 101]"

text \<open>
  \<open>res.choices[0].message.content.strip()\<close>: an empty list of choices raises
  \<open>IndexError\<close>, a content of \<open>None\<close> raises \<open>AttributeError\<close>.
\<close>

definition reply_content :: "response \<Rightarrow> exc + pystr" where
  "reply_content res =
     (case choices res of
        [] \<Rightarrow> Inl (Exc IndexError msg_index_error)
      | None # _ \<Rightarrow> Inl (Exc AttributeError msg_none_strip)
      | Some s # _ \<Rightarrow> Inr (strip s))"

text \<open>
  The parse step of \<open>analyze_food_image_with_ai\<close> and \<open>analyze_text_with_ai\<close> (the same
  lines in both). Only \<open>json.JSONDecodeError\<close> is caught; anything else propagates.
\<close>

definition parse_reply :: "decoder \<Rightarrow> response \<Rightarrow> exc + pydict" where
  "parse_reply loads res =
     (case reply_content res of
        Inl e \<Rightarrow> Inl e
      | Inr content \<Rightarrow>
          (case re_search content of
             Some json_match \<Rightarrow>
               (case loads json_match of
                  Inr d \<Rightarrow> Inr d
                | Inl e \<Rightarrow>
                    if exc_class e = JSONDecodeError
                    then Inr [(cp ''error'', JStr err_json), (cp ''raw'', JStr content)]
                    else Inl e)
           | None \<Rightarrow> Inr [(cp ''error'', JStr err_parse_failed), (cp ''raw'', JStr content)]))"

text \<open>
  The retry loop \<open>for i in range(max_retries + 1)\<close> around the call. It leaves by
  \<open>break\<close> with the response, by \<open>return\<close> with the error value after the last
  transient failure, by an exception that is not caught, or by running out of the range
  (only when the range is empty), which leaves \<open>res\<close> unbound.
\<close>

definition is_transient :: "exc \<Rightarrow> bool" where
  "is_transient e = (exc_class e = RateLimitError \<or> exc_class e = APIConnectionError)"

text \<open>The call made after \<open>n\<close> earlier ones raises one of the two caught classes.\<close>

definition fails_transiently :: "client \<Rightarrow> request \<Rightarrow> nat \<Rightarrow> bool" where
  "fails_transiently client req n =
     (case client n req of Raised e \<Rightarrow> is_transient e | Returned res \<Rightarrow> False)"

datatype loop_exit = Break response | Return pydict | Raise exc | Exhausted

function retry_loop ::
  "client \<Rightarrow> request \<Rightarrow> int \<Rightarrow> int \<Rightarrow> 'a world_scheme \<Rightarrow> loop_exit \<times> 'a world_scheme" where
  "retry_loop client req max_retries i w =
     (if i < max_retries + 1 then
        (case client (calls w) req of
           Returned res \<Rightarrow> (Break res, w\<lparr>calls := Suc (calls w)\<rparr>)
         | Raised e \<Rightarrow>
             if is_transient e then
               if i = max_retries
               then (Return [(cp ''error'', JStr err_api)], w\<lparr>calls := Suc (calls w)\<rparr>)
               else retry_loop client req max_retries (i + 1)
                      (w\<lparr>calls := Suc (calls w), sleeps := sleeps w @ [2 ^ nat i]\<rparr>)
             else (Raise e, w\<lparr>calls := Suc (calls w)\<rparr>))
      else (Exhausted, w))"
  by pat_completeness auto
termination
  by (relation "measure (\<lambda>(client, req, max_retries, i, w). nat (max_retries + 1 - i))") auto

definition after_loop :: "decoder \<Rightarrow> loop_exit \<times> 'a world_scheme \<Rightarrow> (exc + pydict) \<times> 'a world_scheme" where
  "after_loop loads r =
     (case r of
        (Break res, w) \<Rightarrow> (parse_reply loads res, w)
      | (Return d, w) \<Rightarrow> (Inr d, w)
      | (Raise e, w) \<Rightarrow> (Inl e, w)
      | (Exhausted, w) \<Rightarrow> (Inl (Exc UnboundLocalError msg_unbound_res), w))"

text \<open>The requests the two analysis functions send.\<close>

definition image_request :: "bytes \<Rightarrow> pystr \<Rightarrow> pystr \<Rightarrow> request" where
  "image_request image_bytes api_key model =
     \<lparr>req_api_key = api_key, req_model = model,
      req_content = TextAndImage image_prompt image_bytes,
      req_temperature = 3 / 10, req_max_tokens = 2000\<rparr>"

definition text_request :: "pystr \<Rightarrow> pystr \<Rightarrow> pystr \<Rightarrow> request" where
  "text_request text api_key model =
     \<lparr>req_api_key = api_key, req_model = model,
      req_content = TextOnly (text_prompt text),
      req_temperature = 3 / 10, req_max_tokens = 2000\<rparr>"

definition analyze_food_image_with_ai ::
  "client \<Rightarrow> decoder \<Rightarrow> bytes \<Rightarrow> pystr \<Rightarrow> pystr \<Rightarrow> int \<Rightarrow> 'a world_scheme \<Rightarrow>
   (exc + pydict) \<times> 'a world_scheme" where
  "analyze_food_image_with_ai client loads image_bytes api_key model max_retries w =
     after_loop loads (retry_loop client (image_request image_bytes api_key model) max_retries 0 w)"

definition analyze_text_with_ai ::
  "client \<Rightarrow> decoder \<Rightarrow> pystr \<Rightarrow> pystr \<Rightarrow> pystr \<Rightarrow> int \<Rightarrow> 'a world_scheme \<Rightarrow>
   (exc + pydict) \<times> 'a world_scheme" where
  "analyze_text_with_ai client loads text api_key model max_retries w =
     after_loop loads (retry_loop client (text_request text api_key model) max_retries 0 w)"

section \<open>The report synthesizer\<close>

text \<open>
  \<open>generate_ai_report\<close> makes one call, with no retry. The call and the reading of the
  reply sit in one \<open>try\<close> whose handler catches every \<open>Exception\<close> and returns a
  text that starts with "report generation failed: ". \<open>dumps\<close> is
  \<open>json.dumps(..., ensure_ascii=False, indent=2)\<close>, the standard library's, and
  \<open>now\<close> the formatted current time.
\<close>

definition report_request :: "pystr \<Rightarrow> pystr \<Rightarrow> pystr \<Rightarrow> pystr \<Rightarrow> pystr \<Rightarrow> request" where
  "report_request results_summary source_type now api_key model =
     \<lparr>req_api_key = api_key, req_model = model,
      req_content = TextOnly (report_prompt source_type results_summary now),
      req_temperature = 4 / 10, req_max_tokens = 3000\<rparr>"

definition generate_ai_report ::
  "client \<Rightarrow> (pydict list \<Rightarrow> pystr) \<Rightarrow> pystr \<Rightarrow> pydict list \<Rightarrow> pystr \<Rightarrow> pystr \<Rightarrow> pystr \<Rightarrow>
   'a world_scheme \<Rightarrow> pystr \<times> 'a world_scheme" where
  "generate_ai_report client dumps now analysis_results source_type api_key model w =
     (let results_summary = dumps analysis_results in
      case client (calls w) (report_request results_summary source_type now api_key model) of
        Returned res \<Rightarrow>
          (case reply_content res of
             Inr report \<Rightarrow> (report, w\<lparr>calls := Suc (calls w)\<rparr>)
           | Inl e \<Rightarrow> (report_failed @ exc_str e, w\<lparr>calls := Suc (calls w)\<rparr>))
      | Raised e \<Rightarrow> (report_failed @ exc_str e, w\<lparr>calls := Suc (calls w)\<rparr>))"

section \<open>Medical information for one allergen\<close>

text \<open>
  \<open>get_medical_info_for_allergen\<close>: one call, and the same search and decoding as the
  analysis functions, all inside one \<open>try\<close> that turns every \<open>Exception\<close> into an
  error mapping.
\<close>

definition medical_request :: "pystr \<Rightarrow> pystr \<Rightarrow> pystr \<Rightarrow> request" where
  "medical_request allergen api_key model =
     \<lparr>req_api_key = api_key, req_model = model,
      req_content = TextOnly (medical_prompt allergen),
      req_temperature = 3 / 10, req_max_tokens = 1500\<rparr>"

definition get_medical_info_for_allergen ::
  "client \<Rightarrow> decoder \<Rightarrow> pystr \<Rightarrow> pystr \<Rightarrow> pystr \<Rightarrow> 'a world_scheme \<Rightarrow> pydict \<times> 'a world_scheme" where
  "get_medical_info_for_allergen client loads allergen api_key model w =
     (let failed = (\<lambda>e. [(cp ''error'', JStr (med_failed @ exc_str e))]) in
      (case client (calls w) (medical_request allergen api_key model) of
         Returned res \<Rightarrow>
           (case reply_content res of
              Inr content \<Rightarrow>
                (case re_search content of
                   Some json_match \<Rightarrow>
                     (case loads json_match of Inr d \<Rightarrow> d | Inl e \<Rightarrow> failed e)
                 | None \<Rightarrow> [(cp ''error'', JStr med_parse_failed)])
            | Inl e \<Rightarrow> failed e)
       | Raised e \<Rightarrow> failed e,
       w\<lparr>calls := Suc (calls w)\<rparr>))"

section \<open>Input normalizers\<close>

text \<open>
  A PDF as \<open>pypdf\<close> shows it to the program: \<open>PdfReader(pdf_file)\<close> raises, or gives
  pages whose \<open>extract_text()\<close> returns a text or raises.
\<close>

datatype pdf_file = Unreadable exc | Pages "(exc + pystr) list"

text \<open>The loop \<open>for page in pdf_reader.pages: text += page.extract_text() + "\n"\<close>.\<close>

fun extract_pages :: "(exc + pystr) list \<Rightarrow> pystr \<Rightarrow> exc + pystr" where
  "extract_pages [] text = Inr text"
| "extract_pages (page # pages) text =
     (case page of
        Inl e \<Rightarrow> Inl e
      | Inr page_text \<Rightarrow> extract_pages pages (text @ page_text @ [10]))"

definition extract_pdf_text :: "pdf_file \<Rightarrow> pystr" where
  "extract_pdf_text pdf =
     (case pdf of
        Unreadable e \<Rightarrow> pdf_error_prefix @ exc_str e
      | Pages pages \<Rightarrow>
          (case extract_pages pages [] of
             Inr text \<Rightarrow> text
           | Inl e \<Rightarrow> pdf_error_prefix @ exc_str e))"

text \<open>
  A \<open>DataFrame\<close> as \<open>pd.read_excel\<close> hands it over: columns in order, each with its
  label, its dtype and its cells. A cell of an object column is missing (\<open>NaN\<close> or
  \<open>None\<close>, what \<open>dropna()\<close> drops), a \<open>str\<close>, or another object, kept by the text that
  \<open>str()\<close> gives for it. With its default NA handling \<open>pd.read_excel\<close> reads an empty
  cell and an empty string as \<open>NaN\<close>, so in a table that it hands over no cell is the empty
  string: \<open>as_read_from_excel\<close>.
\<close>

datatype dtype = ObjectDtype | Int64 | Float64 | BoolDtype | Datetime64

datatype cell = Missing | StrCell pystr | ObjCell pystr

record column =
  col_label :: pystr
  col_dtype :: dtype
  col_cells :: "cell list"

type_synonym dataframe = "column list"


definition dropna :: "cell list \<Rightarrow> cell list" where
  "dropna cells = filter (\<lambda>c. c \<noteq> Missing) cells"

fun cell_str :: "cell \<Rightarrow> pystr" where
  "cell_str (StrCell s) = s"
| "cell_str (ObjCell s) = s"
| "cell_str Missing = cp ''nan''"

definition astype_str :: "cell list \<Rightarrow> pystr list" where
  "astype_str cells = map cell_str cells"

text \<open>
  The loop of the Excel tab that builds \<open>all_text\<close>:
  \<open>for col in df.columns: if df[col].dtype == 'object': all_text += ...\<close>.
\<close>

fun excel_all_text :: "dataframe \<Rightarrow> pystr \<Rightarrow> pystr" where
  "excel_all_text [] all_text = all_text"
| "excel_all_text (col # cols) all_text =
     excel_all_text cols
       (if col_dtype col = ObjectDtype
        then all_text @ ([10, 91] @ col_label col @ [93, 10]) @
             (join [10] (astype_str (dropna (col_cells col))) @ [10])
        else all_text)"

section \<open>Texts shown on the screen\<close>

text \<open>The literals of the user interface, as code points; the names say what they mean.\<close>

definition t_unknown_error :: pystr where
  "t_unknown_error =
    [50508, 32, 49688, 32, 50630, 45716, 32, 50724, 47448]"

definition t_analysis_failed :: pystr where
  "t_analysis_failed =
    [48516, 49437, 32, 49892, 54056, 58, 32]"

definition t_analysis_done :: pystr where
  "t_analysis_done =
    [9989, 32, 48516, 49437, 32, 50756, 47308, 33]"

definition t_report_heading :: pystr where
  "t_report_heading =
    [35, 35, 35, 32, 128202, 32, 65, 73, 32, 51333, 54633, 32, 48516, 49437, 32, 48372, 44256, 49436]"

definition t_download_label :: pystr where
  "t_download_label =
    [128229, 32, 48372, 44256, 49436, 32, 45796, 50868, 47196, 46300]"

definition t_report_file_prefix :: pystr where
  "t_report_file_prefix =
    [65, 73, 95, 50508, 47112, 47476, 44592, 48516, 49437, 48372, 44256, 49436, 95]"

definition t_missing_key :: pystr where
  "t_missing_key =
    [9888, 65039, 32, 79, 112, 101, 110, 65, 73, 32, 65, 80, 73, 32, 53412, 44032, 32, 49444, 51221,
     46104, 51648, 32, 50506, 50520, 49845, 45768, 45796, 46, 32, 83, 116, 114, 101, 97, 109, 108,
     105, 116, 32, 115, 101, 99, 114, 101, 116, 115, 50640, 32, 79, 80, 69, 78, 65, 73, 95, 65, 80,
     73, 95, 75, 69, 89, 47484, 32, 52628, 44032, 54644, 51452, 49464, 50836, 46]"

definition t_image :: pystr where
  "t_image =
    [51060, 48120, 51648, 32]"

definition t_analysing :: pystr where
  "t_analysing =
    [32, 48516, 49437, 32, 51473, 46, 46, 46]"

definition t_image_expander :: pystr where
  "t_image_expander =
    [128203, 32, 51060, 48120, 51648, 32]"

definition t_result_suffix :: pystr where
  "t_result_suffix =
    [32, 48516, 49437, 32, 44208, 44284]"

definition t_dish_heading :: pystr where
  "t_dish_heading =
    [35, 35, 35, 32, 127869, 65039, 32]"

definition t_ingredients :: pystr where
  "t_ingredients =
    [42, 42, 51116, 47308, 42, 42, 58, 32]"

definition t_found_allergens :: pystr where
  "t_found_allergens =
    [9888, 65039, 32, 48156, 44204, 46108, 32, 50508, 47112, 47476, 44592, 58, 32]"

definition t_count_unit :: pystr where
  "t_count_unit =
    [44060]"

definition t_red :: pystr where
  "t_red =
    [128308]"

definition t_yellow :: pystr where
  "t_yellow =
    [128993]"

definition t_green :: pystr where
  "t_green =
    [128994]"

definition t_high :: pystr where
  "t_high =
    [44256, 46020]"

definition t_medium :: pystr where
  "t_medium =
    [51473, 46321, 46020]"

definition t_low :: pystr where
  "t_low =
    [44221, 46020]"

definition t_source_open :: pystr where
  "t_source_open =
    [42, 42, 32, 40, 52636, 52376, 58, 32]"

definition t_high_risk_items :: pystr where
  "t_high_risk_items =
    [128680, 32, 44256, 50948, 54744, 32, 54637, 47785, 58, 32]"

definition t_image_failed :: pystr where
  "t_image_failed =
    [32, 48516, 49437, 32, 49892, 54056, 58, 32]"

definition t_all_done :: pystr where
  "t_all_done =
    [48516, 49437, 32, 50756, 47308, 33]"

definition t_check :: pystr where
  "t_check =
    [9989, 32]"

definition t_images_done :: pystr where
  "t_images_done =
    [44060, 32, 51060, 48120, 51648, 32, 48516, 49437, 32, 50756, 47308, 33]"

definition t_source_images :: pystr where
  "t_source_images =
    [51060, 48120, 51648, 32, 54028, 51068]"

definition t_menus_heading :: pystr where
  "t_menus_heading =
    [35, 35, 35, 32, 127869, 65039, 32, 47700, 45684, 48324, 32, 48516, 49437, 32, 44208, 44284]"

definition t_pin :: pystr where
  "t_pin =
    [128204, 32]"

definition t_likely_ingredients :: pystr where
  "t_likely_ingredients =
    [42, 42, 52628, 51221, 32, 51116, 47308, 42, 42, 58, 32]"

definition t_sure_mark :: pystr where
  "t_sure_mark =
    [9989]"

definition t_warn_mark :: pystr where
  "t_warn_mark =
    [9888, 65039]"

definition t_question_mark :: pystr where
  "t_question_mark =
    [10067]"

definition t_certain :: pystr where
  "t_certain =
    [54869, 49892, 54632]"

definition t_likely :: pystr where
  "t_likely =
    [44032, 45733, 49457, 45458, 51020]"

definition t_origin :: pystr where
  "t_origin =
    [32, 32, 32, 52636, 52376, 58, 32]"

definition t_risk_sep :: pystr where
  "t_risk_sep =
    [32, 124, 32, 50948, 54744, 46020, 58, 32]"

definition t_note :: pystr where
  "t_note =
    [32, 32, 32, 128161, 32]"

definition t_metric_found :: pystr where
  "t_metric_found =
    [48156, 44204, 46108, 32, 50508, 47112, 47476, 44592]"

definition t_metric_score :: pystr where
  "t_metric_score =
    [50504, 51204, 46020, 32, 51216, 49688]"

definition t_metric_high :: pystr where
  "t_metric_high =
    [44256, 50948, 54744, 32, 50508, 47112, 47476, 44592]"

definition t_special_warnings :: pystr where
  "t_special_warnings =
    [9888, 65039, 32, 42, 42, 53945, 48324, 32, 51452, 51032, 49324, 54637, 42, 42]"

definition t_source_text :: pystr where
  "t_source_text =
    [53581, 49828, 53944, 32, 51077, 47141]"

definition t_enter_text :: pystr where
  "t_enter_text =
    [48516, 49437, 54624, 32, 53581, 49828, 53944, 47484, 32, 51077, 47141, 54644, 51452, 49464,
     50836, 46]"

definition t_excel_preview :: pystr where
  "t_excel_preview =
    [128202, 32, 69, 120, 99, 101, 108, 32, 45936, 51060, 53552, 32, 48120, 47532, 48372, 44592, 58]"

definition t_col_menu :: pystr where
  "t_col_menu =
    [47700, 45684]"

definition t_col_allergen :: pystr where
  "t_col_allergen =
    [50508, 47112, 47476, 44592]"

definition t_col_confidence :: pystr where
  "t_col_confidence =
    [54869, 49892, 46020]"

definition t_col_risk :: pystr where
  "t_col_risk =
    [50948, 54744, 46020]"

definition t_col_origin :: pystr where
  "t_col_origin =
    [52636, 52376]"

definition t_col_remark :: pystr where
  "t_col_remark =
    [48708, 44256]"

definition t_allergen_table_heading :: pystr where
  "t_allergen_table_heading =
    [35, 35, 35, 32, 128269, 32, 50508, 47112, 47476, 44592, 32, 48516, 49437, 32, 44208, 44284]"

definition t_source_excel :: pystr where
  "t_source_excel =
    [69, 120, 99, 101, 108, 32, 54028, 51068]"

definition t_excel_error :: pystr where
  "t_excel_error =
    [69, 120, 99, 101, 108, 32, 54028, 51068, 32, 51069, 44592, 32, 50724, 47448, 58, 32]"

definition t_pdf_preview :: pystr where
  "t_pdf_preview =
    [128196, 32, 52628, 52636, 46108, 32, 53581, 49828, 53944, 32, 48120, 47532, 48372, 44592, 58]"

definition t_siren :: pystr where
  "t_siren =
    [128680, 32]"

definition t_source_pdf :: pystr where
  "t_source_pdf =
    [80, 68, 70, 32, 54028, 51068]"

definition t_med_heading :: pystr where
  "t_med_heading =
    [35, 35, 35, 32, 127973, 32]"

definition t_prevalence :: pystr where
  "t_prevalence =
    [42, 42, 50976, 48337, 47456, 42, 42, 58, 32]"

definition t_no_info :: pystr where
  "t_no_info =
    [51221, 48372, 32, 50630, 51020]"

definition t_exp_mechanism :: pystr where
  "t_exp_mechanism =
    [128300, 32, 48156, 49373, 32, 44592, 51204]"

definition t_exp_symptoms :: pystr where
  "t_exp_symptoms =
    [9889, 32, 51613, 49345]"

definition t_exp_treatment :: pystr where
  "t_exp_treatment =
    [128138, 32, 52824, 47308, 32, 48143, 32, 44288, 47532]"

definition t_exp_school :: pystr where
  "t_exp_school =
    [127979, 32, 54617, 44368, 32, 44288, 47532, 32, 51648, 52840]"

definition t_immediate :: pystr where
  "t_immediate =
    [42, 42, 51593, 44033, 51201, 32, 51613, 49345, 42, 42]"

definition t_severe :: pystr where
  "t_severe =
    [42, 42, 49900, 44033, 54620, 32, 51613, 49345, 42, 42]"

definition t_bullet_siren :: pystr where
  "t_bullet_siren =
    [45, 32, 128680, 32]"

definition t_emergency :: pystr where
  "t_emergency =
    [42, 42, 51025, 44553, 52376, 52824, 42, 42, 58, 32]"

definition t_medication :: pystr where
  "t_medication =
    [42, 42, 50557, 47932, 42, 42, 58, 32]"

definition t_long_term :: pystr where
  "t_long_term =
    [42, 42, 51109, 44592, 44288, 47532, 42, 42, 58, 32]"

definition t_prevention :: pystr where
  "t_prevention =
    [42, 42, 50696, 48169, 32, 51312, 52824, 42, 42]"

definition t_tick :: pystr where
  "t_tick =
    [10003, 32]"

section \<open>Python operations on decoded values\<close>

text \<open>
  The user interface reads the decoded mappings with subscripts, \<open>.get\<close>, \<open>len\<close>,
  \<open>for\<close> loops, \<open>join\<close> and truth tests. On a value of the wrong shape these raise;
  the messages are CPython's.
\<close>

function decimal :: "nat \<Rightarrow> pystr" where
  "decimal n = (if n < 10 then [48 + n] else decimal (n div 10) @ [48 + n mod 10])"
  by pat_completeness auto
termination
  by (relation "measure id") auto

fun type_name :: "json \<Rightarrow> pystr" where
  "type_name JNull = cp ''NoneType''"
| "type_name (JBool b) = cp ''bool''"
| "type_name (JInt n) = cp ''int''"
| "type_name (JFloat f) = cp ''float''"
| "type_name (JStr s) = cp ''str''"
| "type_name (JList xs) = cp ''list''"
| "type_name (JDict d) = cp ''dict''"

text \<open>Truth value of an object, as \<open>if x:\<close> takes it.\<close>

fun truthy :: "json \<Rightarrow> bool" where
  "truthy JNull = False"
| "truthy (JBool b) = b"
| "truthy (JInt n) = (n \<noteq> 0)"
| "truthy (JFloat f) = (f \<noteq> Finite 0)"
| "truthy (JStr s) = (s \<noteq> [])"
| "truthy (JList xs) = (xs \<noteq> [])"
| "truthy (JDict d) = (d \<noteq> [])"

text \<open>\<open>d[k]\<close> and \<open>d.get(k, dflt)\<close> on a dict.\<close>

definition dict_item :: "pydict \<Rightarrow> pystr \<Rightarrow> exc + json" where
  "dict_item d k =
     (case map_of d k of Some v \<Rightarrow> Inr v | None \<Rightarrow> Inl (Exc KeyError ([39] @ k @ [39])))"

definition dict_get :: "pydict \<Rightarrow> pystr \<Rightarrow> json \<Rightarrow> json" where
  "dict_get d k dflt = (case map_of d k of Some v \<Rightarrow> v | None \<Rightarrow> dflt)"

text \<open>\<open>x[k]\<close> with a text key \<open>k\<close>, and \<open>x.get(k, dflt)\<close>, on any decoded value.\<close>

fun subscript :: "json \<Rightarrow> pystr \<Rightarrow> exc + json" where
  "subscript (JDict d) k = dict_item d k"
| "subscript (JStr s) k =
     Inl (Exc TypeError (cp ''string indices must be integers, not '' @ [39] @ cp ''str'' @ [39]))"
| "subscript (JList xs) k =
     Inl (Exc TypeError (cp ''list indices must be integers or slices, not str''))"
| "subscript x k =
     Inl (Exc TypeError ([39] @ type_name x @ [39] @ cp '' object is not subscriptable''))"

fun get_or :: "json \<Rightarrow> pystr \<Rightarrow> json \<Rightarrow> exc + json" where
  "get_or (JDict d) k dflt = Inr (dict_get d k dflt)"
| "get_or x k dflt =
     Inl (Exc AttributeError
            ([39] @ type_name x @ [39] @ cp '' object has no attribute '' @ [39] @ cp ''get'' @ [39]))"

text \<open>
  The items a \<open>for\<close> loop sees: the elements of a list, the characters of a text, the keys
  of a dict.
\<close>

fun iterate :: "json \<Rightarrow> exc + json list" where
  "iterate (JList xs) = Inr xs"
| "iterate (JStr s) = Inr (map (\<lambda>c. JStr [c]) s)"
| "iterate (JDict d) = Inr (map JStr (remdups (map fst d)))"
| "iterate x = Inl (Exc TypeError ([39] @ type_name x @ [39] @ cp '' object is not iterable''))"

fun py_len :: "json \<Rightarrow> exc + nat" where
  "py_len (JList xs) = Inr (length xs)"
| "py_len (JStr s) = Inr (length s)"
| "py_len (JDict d) = Inr (length (remdups (map fst d)))"
| "py_len x =
     Inl (Exc TypeError (cp ''object of type '' @ [39] @ type_name x @ [39] @ cp '' has no len()''))"

text \<open>\<open>sep.join(x)\<close>: every item must be a text.\<close>

fun join_items :: "nat \<Rightarrow> json list \<Rightarrow> exc + pystr list" where
  "join_items i [] = Inr []"
| "join_items i (JStr s # xs) =
     (case join_items (Suc i) xs of Inl e \<Rightarrow> Inl e | Inr ss \<Rightarrow> Inr (s # ss))"
| "join_items i (x # xs) =
     Inl (Exc TypeError
            (cp ''sequence item '' @ decimal i @ cp '': expected str instance, '' @ type_name x @
             cp '' found''))"

definition py_join :: "pystr \<Rightarrow> json \<Rightarrow> exc + pystr" where
  "py_join sep x =
     (case iterate x of
        Inl e \<Rightarrow> Inl (Exc TypeError (cp ''can only join an iterable''))
      | Inr xs \<Rightarrow> (case join_items 0 xs of Inl e \<Rightarrow> Inl e | Inr ss \<Rightarrow> Inr (join sep ss)))"

section \<open>The screen\<close>

text \<open>
  The screen is the sequence of Streamlit calls that write to it, each with the pieces of
  its text: a literal, a decoded value formatted into an f-string, or a table. Layout
  containers (columns, expanders) are recorded by their label; spinners and the fixed
  page furniture (title, headings, captions, the guide at the bottom, the style sheet)
  are left out.
\<close>

datatype frag = Lit pystr | Val json | Frame dataframe

datatype widget =
    StError | StWarning | StSuccess | StInfo | StWrite | StMarkdown | StMetric | StTextArea
  | StDownloadButton | StExpander | StDataframe | StText | StProgress | StImage

type_synonym ui_event = "widget \<times> frag list"

text \<open>
  A piece of display code gives the calls it made and the exception that ended it, if one
  did.
\<close>

type_synonym rendered = "ui_event list \<times> exc option"

definition shown :: "ui_event list \<Rightarrow> rendered" where
  "shown events = (events, None)"

definition andthen :: "rendered \<Rightarrow> rendered \<Rightarrow> rendered" where
  "andthen a b =
     (case a of
        (xs, Some e) \<Rightarrow> (xs, Some e)
      | (xs, None) \<Rightarrow> (case b of (ys, r) \<Rightarrow> (xs @ ys, r)))"

definition using_value :: "exc + 'a \<Rightarrow> ('a \<Rightarrow> rendered) \<Rightarrow> rendered" where
  "using_value v f = (case v of Inl e \<Rightarrow> ([], Some e) | Inr x \<Rightarrow> f x)"

fun for_each :: "('a \<Rightarrow> rendered) \<Rightarrow> 'a list \<Rightarrow> rendered" where
  "for_each body [] = ([], None)"
| "for_each body (x # xs) = andthen (body x) (for_each body xs)"

definition for_in :: "json \<Rightarrow> (json \<Rightarrow> rendered) \<Rightarrow> rendered" where
  "for_in x body = using_value (iterate x) (for_each body)"

definition when_key :: "pydict \<Rightarrow> pystr \<Rightarrow> (json \<Rightarrow> rendered) \<Rightarrow> rendered" where
  "when_key d k f = (case map_of d k of Some v \<Rightarrow> f v | None \<Rightarrow> ([], None))"

section \<open>Display of the results\<close>

text \<open>
  The display code of the four tabs and the sidebar, each piece in the order of the
  source: an interpolated value is read before the call that shows it.
\<close>

subsection \<open>Image tab\<close>

definition risk_emoji :: "json \<Rightarrow> pystr" where
  "risk_emoji level =
     (if level = JStr t_high then t_red else if level = JStr t_medium then t_yellow else t_green)"

definition render_image_allergen :: "json \<Rightarrow> rendered" where
  "render_image_allergen allergen =
     using_value (subscript allergen (cp ''risk_level'')) (\<lambda>level.
     using_value (subscript allergen (cp ''allergen'')) (\<lambda>name.
     using_value (subscript allergen (cp ''source'')) (\<lambda>source.
       shown [(StWrite, [Lit (risk_emoji level), Lit (cp '' **''), Val name,
                         Lit t_source_open, Val source, Lit (cp '')'')])])))"

definition render_menu_item :: "json \<Rightarrow> rendered" where
  "render_menu_item item =
     using_value (subscript item (cp ''name'')) (\<lambda>name.
     andthen (shown [(StMarkdown, [Lit t_dish_heading, Val name])])
    (using_value (subscript item (cp ''ingredients'')) (\<lambda>ingredients.
     using_value (py_join (cp '', '') ingredients) (\<lambda>joined.
     andthen (shown [(StWrite, [Lit t_ingredients, Lit joined])])
    (using_value (get_or item (cp ''allergens'') JNull) (\<lambda>found.
       if truthy found then
         using_value (subscript item (cp ''allergens'')) (\<lambda>allergens.
         using_value (py_len allergens) (\<lambda>n.
         andthen (shown [(StWarning, [Lit t_found_allergens, Val (JInt (int n)), Lit t_count_unit])])
                 (for_in allergens render_image_allergen)))
       else shown []))))))"

definition render_image_result :: "nat \<Rightarrow> pydict \<Rightarrow> rendered" where
  "render_image_result i result =
     andthen (shown [(StExpander, [Lit t_image_expander, Val (JInt (int i + 1)), Lit t_result_suffix])])
    (andthen (when_key result (cp ''menu_items'') (\<lambda>items. for_in items render_menu_item))
             (when_key result (cp ''overall_assessment'') (\<lambda>assessment.
                using_value (get_or assessment (cp ''high_risk_items'') JNull) (\<lambda>high.
                  if truthy high then
                    using_value (subscript assessment (cp ''high_risk_items'')) (\<lambda>items.
                    using_value (py_join (cp '', '') items) (\<lambda>joined.
                      shown [(StError, [Lit t_high_risk_items, Lit joined])]))
                  else shown []))))"

subsection \<open>Text tab\<close>

definition confidence_emoji :: "json \<Rightarrow> pystr" where
  "confidence_emoji confidence =
     (if confidence = JStr t_certain then t_sure_mark
      else if confidence = JStr t_likely then t_warn_mark else t_question_mark)"

definition risk_color :: "json \<Rightarrow> pystr" where
  "risk_color level =
     (if level = JStr t_high then cp ''red''
      else if level = JStr t_medium then cp ''orange'' else cp ''green'')"

definition render_text_allergen :: "json \<Rightarrow> rendered" where
  "render_text_allergen allergen =
     using_value (subscript allergen (cp ''confidence'')) (\<lambda>confidence.
     using_value (subscript allergen (cp ''risk_level'')) (\<lambda>level.
     using_value (subscript allergen (cp ''allergen'')) (\<lambda>name.
     andthen (shown [(StMarkdown, [Lit (confidence_emoji confidence), Lit (cp '' :''),
                                   Lit (risk_color level), Lit (cp ''[**''), Val name,
                                   Lit (cp ''**] - ''), Val confidence])])
    (using_value (subscript allergen (cp ''source_ingredient'')) (\<lambda>source.
     andthen (shown [(StWrite, [Lit t_origin, Val source, Lit t_risk_sep, Val level])])
    (using_value (get_or allergen (cp ''notes'') JNull) (\<lambda>notes.
       if truthy notes then
         using_value (subscript allergen (cp ''notes'')) (\<lambda>shown_notes.
           shown [(StInfo, [Lit t_note, Val shown_notes])])
       else shown [])))))))"

definition render_menu :: "json \<Rightarrow> rendered" where
  "render_menu menu =
     using_value (subscript menu (cp ''menu_name'')) (\<lambda>name.
     andthen (shown [(StExpander, [Lit t_pin, Val name])])
    (using_value (subscript menu (cp ''likely_ingredients'')) (\<lambda>ingredients.
     using_value (py_join (cp '', '') ingredients) (\<lambda>joined.
     andthen (shown [(StWrite, [Lit t_likely_ingredients, Lit joined])])
    (using_value (get_or menu (cp ''allergen_analysis'') JNull) (\<lambda>analysis.
       if truthy analysis then
         using_value (subscript menu (cp ''allergen_analysis'')) (\<lambda>allergens.
           for_in allergens render_text_allergen)
       else shown []))))))"

definition render_summary :: "json \<Rightarrow> rendered" where
  "render_summary summary =
     using_value (get_or summary (cp ''total_allergens_found'') (JList [])) (\<lambda>found.
     using_value (py_len found) (\<lambda>n_found.
     andthen (shown [(StMetric, [Lit t_metric_found, Val (JInt (int n_found))])])
    (using_value (get_or summary (cp ''menu_safety_score'') (JInt 0)) (\<lambda>score.
     andthen (shown [(StMetric, [Lit t_metric_score, Val score, Lit (cp ''/10'')])])
    (using_value (get_or summary (cp ''high_confidence_allergens'') (JList [])) (\<lambda>high.
     using_value (py_len high) (\<lambda>n_high.
     andthen (shown [(StMetric, [Lit t_metric_high, Val (JInt (int n_high))])])
    (using_value (get_or summary (cp ''special_warnings'') JNull) (\<lambda>warnings.
       if truthy warnings then
         andthen (shown [(StError, [Lit t_special_warnings])])
        (using_value (subscript summary (cp ''special_warnings'')) (\<lambda>ws.
           for_in ws (\<lambda>warning. shown [(StWrite, [Lit (cp ''- ''), Val warning])])))
       else shown [])))))))))"

definition render_text_result :: "pydict \<Rightarrow> rendered" where
  "render_text_result result =
     andthen (shown [(StSuccess, [Lit t_analysis_done])])
    (andthen (when_key result (cp ''identified_menus'') (\<lambda>menus.
                andthen (shown [(StMarkdown, [Lit t_menus_heading])])
                        (for_in menus render_menu)))
             (when_key result (cp ''summary'') render_summary))"

subsection \<open>Excel tab\<close>

text \<open>One row of the table of findings, built from a menu and one of its allergens.\<close>

definition allergen_row :: "json \<Rightarrow> json \<Rightarrow> exc + json" where
  "allergen_row menu allergen =
     (case subscript menu (cp ''menu_name'') of Inl e \<Rightarrow> Inl e | Inr menu_name \<Rightarrow>
     (case subscript allergen (cp ''allergen'') of Inl e \<Rightarrow> Inl e | Inr name \<Rightarrow>
     (case subscript allergen (cp ''confidence'') of Inl e \<Rightarrow> Inl e | Inr confidence \<Rightarrow>
     (case subscript allergen (cp ''risk_level'') of Inl e \<Rightarrow> Inl e | Inr level \<Rightarrow>
     (case subscript allergen (cp ''source_ingredient'') of Inl e \<Rightarrow> Inl e | Inr source \<Rightarrow>
     (case get_or allergen (cp ''notes'') (JStr []) of Inl e \<Rightarrow> Inl e | Inr notes \<Rightarrow>
        Inr (JDict [(t_col_menu, menu_name), (t_col_allergen, name),
                    (t_col_confidence, confidence), (t_col_risk, level),
                    (t_col_origin, source), (t_col_remark, notes)])))))))"

fun collect_rows :: "('a \<Rightarrow> exc + json list) \<Rightarrow> 'a list \<Rightarrow> json list \<Rightarrow> exc + json list" where
  "collect_rows rows_of [] acc = Inr acc"
| "collect_rows rows_of (x # xs) acc =
     (case rows_of x of Inl e \<Rightarrow> Inl e | Inr rows \<Rightarrow> collect_rows rows_of xs (acc @ rows))"

definition menu_rows :: "json \<Rightarrow> exc + json list" where
  "menu_rows menu =
     (case get_or menu (cp ''allergen_analysis'') (JList []) of
        Inl e \<Rightarrow> Inl e
      | Inr analysis \<Rightarrow>
          (case iterate analysis of
             Inl e \<Rightarrow> Inl e
           | Inr allergens \<Rightarrow>
               collect_rows
                 (\<lambda>allergen. case allergen_row menu allergen of Inl e \<Rightarrow> Inl e | Inr row \<Rightarrow> Inr [row])
                 allergens []))"

definition render_excel_result :: "pydict \<Rightarrow> rendered" where
  "render_excel_result result =
     andthen (shown [(StSuccess, [Lit t_analysis_done])])
       (when_key result (cp ''identified_menus'') (\<lambda>menus.
          using_value (iterate menus) (\<lambda>ms.
          using_value (collect_rows menu_rows ms []) (\<lambda>allergen_data.
            if allergen_data \<noteq> [] then
              shown [(StMarkdown, [Lit t_allergen_table_heading]),
                     (StDataframe, [Val (JList allergen_data)])]
            else shown []))))"

subsection \<open>PDF tab\<close>

definition render_pdf_result :: "pydict \<Rightarrow> rendered" where
  "render_pdf_result result =
     andthen (shown [(StSuccess, [Lit t_analysis_done])])
       (when_key result (cp ''summary'') (\<lambda>summary.
          andthen
            (using_value (get_or summary (cp ''total_allergens_found'') JNull) (\<lambda>found.
               if truthy found then
                 using_value (subscript summary (cp ''total_allergens_found'')) (\<lambda>items.
                 using_value (py_join (cp '', '') items) (\<lambda>joined.
                   shown [(StWarning, [Lit t_found_allergens, Lit joined])]))
               else shown []))
            (using_value (get_or summary (cp ''special_warnings'') JNull) (\<lambda>warnings.
               if truthy warnings then
                 using_value (subscript summary (cp ''special_warnings'')) (\<lambda>ws.
                   for_in ws (\<lambda>warning. shown [(StError, [Lit t_siren, Val warning])]))
               else shown []))))"

subsection \<open>Sidebar\<close>

definition render_section ::
  "pydict \<Rightarrow> pystr \<Rightarrow> pystr \<Rightarrow> (json \<Rightarrow> rendered) \<Rightarrow> rendered" where
  "render_section info label key body =
     andthen (shown [(StExpander, [Lit label])])
       (if truthy (dict_get info key JNull)
        then using_value (dict_item info key) body
        else shown [])"

definition render_symptoms :: "json \<Rightarrow> rendered" where
  "render_symptoms symptoms =
     andthen (shown [(StWrite, [Lit t_immediate])])
    (using_value (get_or symptoms (cp ''immediate'') (JList [])) (\<lambda>immediate.
     andthen (for_in immediate (\<lambda>s. shown [(StWrite, [Lit (cp ''- ''), Val s])]))
    (andthen (shown [(StWrite, [Lit t_severe])])
    (using_value (get_or symptoms (cp ''severe'') (JList [])) (\<lambda>severe.
       for_in severe (\<lambda>s. shown [(StWrite, [Lit t_bullet_siren, Val s])]))))))"

definition render_treatment :: "json \<Rightarrow> rendered" where
  "render_treatment treatment =
     using_value (get_or treatment (cp ''emergency'') (JStr [])) (\<lambda>emergency.
     andthen (shown [(StError, [Lit t_emergency, Val emergency])])
    (using_value (get_or treatment (cp ''medication'') (JStr [])) (\<lambda>medication.
     andthen (shown [(StWarning, [Lit t_medication, Val medication])])
    (using_value (get_or treatment (cp ''long_term'') (JStr [])) (\<lambda>long_term.
       shown [(StSuccess, [Lit t_long_term, Val long_term])])))))"

definition render_school_management :: "json \<Rightarrow> rendered" where
  "render_school_management management =
     andthen (shown [(StWrite, [Lit t_prevention])])
    (using_value (get_or management (cp ''prevention'') (JList [])) (\<lambda>prevention.
       for_in prevention (\<lambda>p. shown [(StWrite, [Lit t_tick, Val p])])))"

definition render_medical_info :: "pystr \<Rightarrow> pydict \<Rightarrow> rendered" where
  "render_medical_info selected_allergen info =
     andthen (shown [(StMarkdown, [Lit t_med_heading,
                                   Val (dict_get info (cp ''medical_name'') (JStr selected_allergen))]),
                     (StInfo, [Lit t_prevalence,
                               Val (dict_get info (cp ''prevalence'') (JStr t_no_info))]),
                     (StExpander, [Lit t_exp_mechanism]),
                     (StWrite, [Val (dict_get info (cp ''mechanism'') (JStr []))])])
    (andthen (render_section info t_exp_symptoms (cp ''symptoms'') render_symptoms)
    (andthen (render_section info t_exp_treatment (cp ''treatment'') render_treatment)
             (render_section info t_exp_school (cp ''school_management'')
                render_school_management)))"

section \<open>The tabs and the page\<close>

text \<open>
  What the page is given from outside: the service, the two library functions, the
  current time in the two formats the program prints it, and the state of the widgets in
  one run of the script.
\<close>

record env =
  env_client :: client
  env_loads :: decoder
  env_dumps :: "pydict list \<Rightarrow> pystr"
  env_now :: pystr
  env_stamp :: pystr

record inputs =
  selected_allergen :: pystr
  get_medical_info :: bool
  uploaded_images :: "bytes list"
  analyze_images :: bool
  text_input :: pystr
  analyze_text :: bool
  uploaded_excel :: "(exc + dataframe) option"
  analyze_excel :: bool
  uploaded_pdf :: "pdf_file option"
  analyze_pdf :: bool

text \<open>
  A part of the page gives the exception that ended it (if one did), the world after it
  and the calls it made to the screen.
\<close>

type_synonym handled = "exc option \<times> world \<times> ui_event list"

text \<open>The report, its heading, its text area and its download button.\<close>

definition report_section ::
  "env \<Rightarrow> pydict list \<Rightarrow> pystr \<Rightarrow> pystr \<Rightarrow> world \<Rightarrow> world \<times> ui_event list" where
  "report_section env results source_type api_key w =
     (case generate_ai_report (env_client env) (env_dumps env) (env_now env) results source_type
             api_key default_model w of
        (report, w') \<Rightarrow>
          (w', [(StMarkdown, [Lit t_report_heading]),
                (StTextArea, [Lit report]),
                (StDownloadButton, [Lit t_download_label, Lit report, Lit t_report_file_prefix,
                                    Lit (env_stamp env), Lit (cp ''.txt'')])]))"

definition failure_shown :: "pydict \<Rightarrow> ui_event" where
  "failure_shown result =
     (StError, [Lit t_analysis_failed, Val (dict_get result (cp ''error'') (JStr t_unknown_error))])"

subsection \<open>Image tab\<close>

definition progress_events :: "nat \<Rightarrow> nat \<Rightarrow> ui_event list" where
  "progress_events i n =
     [(StText, [Lit t_image, Val (JInt (int i + 1)), Lit (cp ''/''), Val (JInt (int n)),
                Lit t_analysing]),
      (StProgress, [Val (JFloat (Finite (of_nat (i + 1) / of_nat n)))])]"

definition image_failure_shown :: "nat \<Rightarrow> pydict \<Rightarrow> ui_event" where
  "image_failure_shown i result =
     (StError, [Lit t_image, Val (JInt (int i + 1)), Lit t_image_failed,
                Val (dict_get result (cp ''error'') (JStr t_unknown_error))])"

text \<open>
  The loop \<open>for i, image in enumerate(uploaded_images)\<close> of the button handler, with the
  list \<open>analysis_results\<close> it appends to.
\<close>

fun analyze_images_loop ::
  "env \<Rightarrow> pystr \<Rightarrow> nat \<Rightarrow> nat \<Rightarrow> bytes list \<Rightarrow> pydict list \<Rightarrow> world \<Rightarrow> ui_event list \<Rightarrow>
   (exc + pydict list) \<times> world \<times> ui_event list" where
  "analyze_images_loop env api_key n i [] analysis_results w scr = (Inr analysis_results, w, scr)"
| "analyze_images_loop env api_key n i (img # rest) analysis_results w scr =
     (case analyze_food_image_with_ai (env_client env) (env_loads env) img api_key
             default_model default_max_retries w of
        (Inl e, w1) \<Rightarrow> (Inl e, w1, scr @ progress_events i n)
      | (Inr result, w1) \<Rightarrow>
          if \<not> has_key (cp ''error'') result then
            (case render_image_result i result of
               (events, Some e) \<Rightarrow> (Inl e, w1, scr @ progress_events i n @ events)
             | (events, None) \<Rightarrow>
                 analyze_images_loop env api_key n (Suc i) rest (analysis_results @ [result]) w1
                   (scr @ progress_events i n @ events))
          else
            analyze_images_loop env api_key n (Suc i) rest analysis_results w1
              (scr @ progress_events i n @ [image_failure_shown i result]))"

definition analyze_images_handler :: "env \<Rightarrow> pystr \<Rightarrow> bytes list \<Rightarrow> world \<Rightarrow> handled" where
  "analyze_images_handler env api_key images w =
     (case analyze_images_loop env api_key (length images) 0 images [] w
             [(StProgress, [Val (JInt 0)])] of
        (Inl e, w1, scr) \<Rightarrow> (Some e, w1, scr)
      | (Inr analysis_results, w1, scr) \<Rightarrow>
          if analysis_results \<noteq> [] then
            (case report_section env analysis_results t_source_images api_key w1 of
               (w2, report_shown) \<Rightarrow>
                 (None, w2,
                  scr @ [(StProgress, [Val (JFloat (Finite 1))]), (StText, [Lit t_all_done]),
                         (StSuccess, [Lit t_check, Val (JInt (int (length analysis_results))),
                                      Lit t_images_done])] @ report_shown))
          else
            (None, w1,
             scr @ [(StProgress, [Val (JFloat (Finite 1))]), (StText, [Lit t_all_done])]))"

definition image_tab :: "env \<Rightarrow> pystr \<Rightarrow> inputs \<Rightarrow> world \<Rightarrow> handled" where
  "image_tab env api_key inp w =
     (if uploaded_images inp \<noteq> [] then
        (let previews = map (\<lambda>i. (StImage, [Lit t_image, Val (JInt (int i + 1))]))
                            [0..<length (uploaded_images inp)]
         in if analyze_images inp then
              (case analyze_images_handler env api_key (uploaded_images inp) w of
                 (r, w1, scr) \<Rightarrow> (r, w1, previews @ scr))
            else (None, w, previews))
      else (None, w, []))"

subsection \<open>Text tab\<close>

text \<open>
  The pattern shared by the text, Excel and PDF tabs: analyse a text, show the result,
  then the report; an analysis result with an \<open>error\<close> key is shown as a failure.
\<close>

definition analyze_and_report ::
  "env \<Rightarrow> pystr \<Rightarrow> pystr \<Rightarrow> (pydict \<Rightarrow> rendered) \<Rightarrow> pystr \<Rightarrow> world \<Rightarrow> handled" where
  "analyze_and_report env api_key text render source_type w =
     (case analyze_text_with_ai (env_client env) (env_loads env) text api_key default_model
             default_max_retries w of
        (Inl e, w1) \<Rightarrow> (Some e, w1, [])
      | (Inr result, w1) \<Rightarrow>
          if \<not> has_key (cp ''error'') result then
            (case render result of
               (events, Some e) \<Rightarrow> (Some e, w1, events)
             | (events, None) \<Rightarrow>
                 (case report_section env [result] source_type api_key w1 of
                    (w2, report_shown) \<Rightarrow> (None, w2, events @ report_shown)))
          else (None, w1, [failure_shown result]))"

definition text_tab :: "env \<Rightarrow> pystr \<Rightarrow> inputs \<Rightarrow> world \<Rightarrow> handled" where
  "text_tab env api_key inp w =
     (if analyze_text inp then
        if strip (text_input inp) \<noteq> []
        then analyze_and_report env api_key (text_input inp) render_text_result t_source_text w
        else (None, w, [(StWarning, [Lit t_enter_text])])
      else (None, w, []))"

subsection \<open>Excel tab\<close>

text \<open>
  The whole tab sits in a \<open>try\<close> whose handler shows every \<open>Exception\<close> as a read
  error of the Excel file.
\<close>

definition excel_tab :: "env \<Rightarrow> pystr \<Rightarrow> inputs \<Rightarrow> world \<Rightarrow> handled" where
  "excel_tab env api_key inp w =
     (case uploaded_excel inp of
        None \<Rightarrow> (None, w, [])
      | Some (Inl e) \<Rightarrow> (None, w, [(StError, [Lit t_excel_error, Lit (exc_str e)])])
      | Some (Inr df) \<Rightarrow>
          (let preview =
                 [(StWrite, [Lit t_excel_preview]),
                  (StDataframe, [Frame (map (\<lambda>col. col\<lparr>col_cells := take 10 (col_cells col)\<rparr>) df)])]
           in if analyze_excel inp then
                (case analyze_and_report env api_key (excel_all_text df []) render_excel_result
                        t_source_excel w of
                   (Some e, w1, events) \<Rightarrow>
                     (None, w1, preview @ events @ [(StError, [Lit t_excel_error, Lit (exc_str e)])])
                 | (None, w1, events) \<Rightarrow> (None, w1, preview @ events))
              else (None, w, preview)))"

subsection \<open>PDF tab\<close>

definition analyze_pdf_handler :: "env \<Rightarrow> pystr \<Rightarrow> pdf_file \<Rightarrow> world \<Rightarrow> handled" where
  "analyze_pdf_handler env api_key pdf w =
     (let pdf_text = extract_pdf_text pdf in
      if \<not> py_in oryu pdf_text then
        (case analyze_and_report env api_key pdf_text render_pdf_result t_source_pdf w of
           (r, w1, events) \<Rightarrow>
             (r, w1,
              [(StWrite, [Lit t_pdf_preview]),
               (StTextArea, [Lit (take 1000 pdf_text @ cp ''...'')])] @ events))
      else (None, w, [(StError, [Lit pdf_text])]))"

definition pdf_tab :: "env \<Rightarrow> pystr \<Rightarrow> inputs \<Rightarrow> world \<Rightarrow> handled" where
  "pdf_tab env api_key inp w =
     (case uploaded_pdf inp of
        None \<Rightarrow> (None, w, [])
      | Some pdf \<Rightarrow> if analyze_pdf inp then analyze_pdf_handler env api_key pdf w else (None, w, []))"

subsection \<open>Sidebar\<close>

definition sidebar :: "env \<Rightarrow> pystr \<Rightarrow> inputs \<Rightarrow> world \<Rightarrow> handled" where
  "sidebar env api_key inp w =
     (if get_medical_info inp then
        (case get_medical_info_for_allergen (env_client env) (env_loads env)
                (selected_allergen inp) api_key default_model w of
           (medical_info, w1) \<Rightarrow>
             if \<not> has_key (cp ''error'') medical_info then
               (case render_medical_info (selected_allergen inp) medical_info of
                  (events, r) \<Rightarrow> (r, w1, events))
             else (None, w1, [(StError, [Val (dict_get medical_info (cp ''error'') JNull)])]))
      else (None, w, []))"

subsection \<open>The script\<close>

text \<open>
  The parts of the page run in the order of the script; an exception that leaves a part
  ends the run. Before them the script checks the secret \<open>OPENAI_API_KEY\<close>: without it,
  it shows an error and calls \<open>st.stop()\<close>.
\<close>

fun run_parts :: "(world \<Rightarrow> handled) list \<Rightarrow> world \<Rightarrow> handled" where
  "run_parts [] w = (None, w, [])"
| "run_parts (part # parts) w =
     (case part w of
        (Some e, w1, scr) \<Rightarrow> (Some e, w1, scr)
      | (None, w1, scr) \<Rightarrow> (case run_parts parts w1 of (r, w2, scr2) \<Rightarrow> (r, w2, scr @ scr2)))"

datatype run_end = Completed | Stopped | Aborted exc

definition app :: "env \<Rightarrow> (pystr \<rightharpoonup> pystr) \<Rightarrow> inputs \<Rightarrow> world \<Rightarrow> run_end \<times> world \<times> ui_event list" where
  "app env secrets inp w =
     (case secrets (cp ''OPENAI_API_KEY'') of
        None \<Rightarrow> (Stopped, w, [(StError, [Lit t_missing_key])])
      | Some api_key \<Rightarrow>
          (case run_parts [sidebar env api_key inp, image_tab env api_key inp,
                           text_tab env api_key inp, excel_tab env api_key inp,
                           pdf_tab env api_key inp] w of
             (None, w1, scr) \<Rightarrow> (Completed, w1, scr)
           | (Some e, w1, scr) \<Rightarrow> (Aborted e, w1, scr)))"

section \<open>Words of the specification about the image tab\<close>

text \<open>
  Written from the specification's words, to be compared with the button handler: an
  analysis succeeded when its mapping has no \<open>error\<close> key; \<open>run_analyses\<close> is what each
  image's analysis gives when the images are analysed one after the other, with the world
  after the last; \<open>per_image_shown\<close> is what the screen shows for each image in turn, the
  display of a success or the separate report of a failure.
\<close>

definition succeeded :: "pydict \<Rightarrow> bool" where
  "succeeded result = (\<not> has_key (cp ''error'') result)"

fun run_analyses :: "env \<Rightarrow> pystr \<Rightarrow> bytes list \<Rightarrow> world \<Rightarrow> (exc + pydict) list \<times> world" where
  "run_analyses env api_key [] w = ([], w)"
| "run_analyses env api_key (img # rest) w =
     (case analyze_food_image_with_ai (env_client env) (env_loads env) img api_key
             default_model default_max_retries w of
        (r, w1) \<Rightarrow> (case run_analyses env api_key rest w1 of (rs, w2) \<Rightarrow> (r # rs, w2)))"

fun per_image_shown :: "nat \<Rightarrow> nat \<Rightarrow> pydict list \<Rightarrow> ui_event list" where
  "per_image_shown n i [] = []"
| "per_image_shown n i (result # results) =
     progress_events i n @
     (if succeeded result then fst (render_image_result i result)
      else [image_failure_shown i result]) @
     per_image_shown n (Suc i) results"

section \<open>Sample inputs\<close>

text \<open>
  Inputs for the concrete instances below: a service that answers from a script (and
  refuses every call beyond it), and a decoder given by a table of the texts it accepts.
\<close>

definition scripted_client :: "api_outcome list \<Rightarrow> client" where
  "scripted_client outcomes n req =
     (if n < length outcomes then outcomes ! n else Raised (Exc OtherAPIError []))"

definition table_decoder :: "(pystr \<times> pydict) list \<Rightarrow> decoder" where
  "table_decoder table s =
     (case map_of table s of Some d \<Rightarrow> Inr d | None \<Rightarrow> Inl (Exc JSONDecodeError []))"

definition rate_limited :: api_outcome where
  "rate_limited = Raised (Exc RateLimitError [])"

definition connection_lost :: api_outcome where
  "connection_lost = Raised (Exc APIConnectionError [])"

definition replies :: "pystr \<Rightarrow> api_outcome" where
  "replies s = Returned (Response [Some s])"

definition fresh :: world where
  "fresh = \<lparr>calls = 0, sleeps = []\<rparr>"

text \<open>
  A reply with prose around one JSON object: a blank, \<open>x\<close>, a blank, the object text
  \<open>{"a":1}\<close>, a blank and a newline; and the mapping the object decodes to.
\<close>

definition sample_object_text :: pystr where
  "sample_object_text = [123, 34, 97, 34, 58, 49, 125]"

definition sample_mapping :: pydict where
  "sample_mapping = [([97], JInt 1)]"

definition sample_reply :: pystr where
  "sample_reply = [32, 120, 32] @ sample_object_text @ [32, 10]"

definition sample_decoder :: decoder where
  "sample_decoder = table_decoder [(sample_object_text, sample_mapping)]"

text \<open>A serializer for the instances; the results below do not depend on what it prints.\<close>

definition sample_dumps :: "pydict list \<Rightarrow> pystr" where
  "sample_dumps results = cp ''[]''"

text \<open>
  The table of the specification's example as the program receives it: a text column
  "menu" whose cells read "ssalbap" (rice), nothing, and "kimchi", and a numeric column.
  The empty middle cell of the sheet arrives as a missing value.
\<close>

definition ssalbap :: pystr where
  "ssalbap =
    [49920, 48165]"

definition kimchi :: pystr where
  "kimchi =
    [44608, 52824]"

definition menu_label :: pystr where
  "menu_label =
    [47700, 45684]"

definition sample_table :: dataframe where
  "sample_table =
     [\<lparr>col_label = menu_label, col_dtype = ObjectDtype,
       col_cells = [StrCell ssalbap, Missing, StrCell kimchi]\<rparr>,
      \<lparr>col_label = cp ''kcal'', col_dtype = Int64,
       col_cells = [ObjCell (cp ''300''), ObjCell (cp ''0''), ObjCell (cp ''15'')]\<rparr>]"

text \<open>
  A page environment around a scripted service, and a run of the script in which every
  button is pressed and every upload is present.
\<close>

definition sample_env :: "api_outcome list \<Rightarrow> env" where
  "sample_env outcomes =
     \<lparr>env_client = scripted_client outcomes, env_loads = sample_decoder,
      env_dumps = sample_dumps, env_now = [], env_stamp = []\<rparr>"

definition busy_inputs :: inputs where
  "busy_inputs =
     \<lparr>selected_allergen = hd MAJOR_ALLERGENS, get_medical_info = True,
      uploaded_images = [[1], [2]], analyze_images = True,
      text_input = ssalbap, analyze_text = True,
      uploaded_excel = Some (Inr sample_table), analyze_excel = True,
      uploaded_pdf = Some (Pages [Inr kimchi]), analyze_pdf = True\<rparr>"

text \<open>
  A refusal that is not retried, a PDF whose one page reads "ssalbap oryu" (so the
  extracted text contains the word for "error"), and a run in which only the text button
  is pressed.
\<close>

definition refused :: api_outcome where
  "refused = Raised (Exc OtherAPIError (cp ''invalid api key''))"

definition sample_pdf_with_error_word :: pdf_file where
  "sample_pdf_with_error_word = Pages [Inr (ssalbap @ [32] @ oryu)]"

definition text_only_inputs :: inputs where
  "text_only_inputs =
     \<lparr>selected_allergen = hd MAJOR_ALLERGENS, get_medical_info = False,
      uploaded_images = [], analyze_images = False,
      text_input = ssalbap, analyze_text = True,
      uploaded_excel = None, analyze_excel = False,
      uploaded_pdf = None, analyze_pdf = False\<rparr>"

section \<open>The retry loop\<close>

lemma fails_transientlyD:
  "fails_transiently client req n \<Longrightarrow> \<exists>e. client n req = Raised e \<and> is_transient e"
  by (auto simp: fails_transiently_def split: api_outcome.splits)

lemma backoff_shift:
  "map (\<lambda>k. (2::nat) ^ nat (i + int k)) [0..<Suc n] =
     2 ^ nat i # map (\<lambda>k. 2 ^ nat (i + 1 + int k)) [0..<n]"
  by (simp add: upt_rec [of 0] map_Suc_upt [symmetric] add.commute add.left_commute del: upt_Suc)

lemma retry_loop_succeeds:
  assumes "\<forall>k<N. fails_transiently client req (calls w + k)"
    and "client (calls w + N) req = Returned res"
    and "0 \<le> i" and "i + int N \<le> max_retries"
  shows "retry_loop client req max_retries i w =
           (Break res, w\<lparr>calls := calls w + N + 1,
                           sleeps := sleeps w @ map (\<lambda>k. 2 ^ nat (i + int k)) [0..<N]\<rparr>)"
  using assms
proof (induction N arbitrary: i w)
  case 0
  then show ?case by simp
next
  case (Suc N)
  from Suc.prems(1) have "fails_transiently client req (calls w + 0)"
    by blast
  then obtain e where e: "client (calls w) req = Raised e" "is_transient e"
    by (auto dest: fails_transientlyD)
  let ?w = "w\<lparr>calls := Suc (calls w), sleeps := sleeps w @ [2 ^ nat i]\<rparr>"
  have step: "retry_loop client req max_retries i w = retry_loop client req max_retries (i + 1) ?w"
    using e Suc.prems(3,4) by simp
  have fails: "\<forall>k<N. fails_transiently client req (calls ?w + k)"
    using Suc.prems(1) by (auto dest: spec [where x = "Suc k" for k])
  have ok: "client (calls ?w + N) req = Returned res"
    using Suc.prems(2) by simp
  have "retry_loop client req max_retries (i + 1) ?w =
          (Break res, ?w\<lparr>calls := calls ?w + N + 1,
                          sleeps := sleeps ?w @ map (\<lambda>k. 2 ^ nat (i + 1 + int k)) [0..<N]\<rparr>)"
    using Suc.IH [OF fails ok] Suc.prems(3,4) by simp
  then show ?case
    using step by (simp add: backoff_shift del: upt_Suc)
qed

lemma retry_loop_gives_up:
  assumes "\<forall>k\<le>n. fails_transiently client req (calls w + k)"
    and "0 \<le> i" and "i + int n = max_retries"
  shows "retry_loop client req max_retries i w =
           (Return [(cp ''error'', JStr err_api)],
            w\<lparr>calls := calls w + n + 1,
              sleeps := sleeps w @ map (\<lambda>k. 2 ^ nat (i + int k)) [0..<n]\<rparr>)"
  using assms
proof (induction n arbitrary: i w)
  case 0
  from "0.prems"(1) obtain e where "client (calls w) req = Raised e" "is_transient e"
    by (auto dest: fails_transientlyD)
  then show ?case using "0.prems"(2,3) by simp
next
  case (Suc n)
  from Suc.prems(1) have "fails_transiently client req (calls w + 0)"
    by blast
  then obtain e where e: "client (calls w) req = Raised e" "is_transient e"
    by (auto dest: fails_transientlyD)
  let ?w = "w\<lparr>calls := Suc (calls w), sleeps := sleeps w @ [2 ^ nat i]\<rparr>"
  have step: "retry_loop client req max_retries i w = retry_loop client req max_retries (i + 1) ?w"
    using e Suc.prems(2,3) by simp
  have fails: "\<forall>k\<le>n. fails_transiently client req (calls ?w + k)"
    using Suc.prems(1) by (auto dest: spec [where x = "Suc k" for k])
  have "retry_loop client req max_retries (i + 1) ?w =
          (Return [(cp ''error'', JStr err_api)],
           ?w\<lparr>calls := calls ?w + n + 1,
               sleeps := sleeps ?w @ map (\<lambda>k. 2 ^ nat (i + 1 + int k)) [0..<n]\<rparr>)"
    using Suc.IH [OF fails] Suc.prems(2,3) by simp
  then show ?case
    using step by (simp add: backoff_shift del: upt_Suc)
qed

lemma retry_loop_empty_range:
  "max_retries < 0 \<Longrightarrow> retry_loop client req max_retries 0 w = (Exhausted, w)"
  by simp

text \<open>
  With a negative bound the range is empty: no call is made, \<open>res\<close> stays unbound and the
  parse step raises. The retry claim below is about bounds from \<open>0\<close> on.
\<close>

lemma negative_bound_raises:
  "max_retries < 0 \<Longrightarrow>
     analyze_text_with_ai client loads text api_key model max_retries w =
       (Inl (Exc UnboundLocalError msg_unbound_res), w)"
  by (simp add: analyze_text_with_ai_def after_loop_def)

text \<open>
  Claim C1. With a retry bound \<open>max_retries \<ge> 0\<close>: when the first \<open>N \<le> max_retries\<close>
  calls fail with a rate-limit or connection error and call \<open>N + 1\<close> returns, both
  analysis functions go on to parse that reply, having made exactly \<open>N + 1\<close> calls and
  slept \<open>2 ^ i\<close> seconds after the \<open>i\<close>-th failed call (\<open>i = 0, 1, ...\<close>). When all
  \<open>max_retries + 1\<close> calls fail this way, exactly that many calls are made and the
  functions return the error value with the message "API call failed" instead of raising.
\<close>

theorem model_call_retry:
  assumes "0 \<le> max_retries"
  shows
    "(\<forall>N res. int N \<le> max_retries \<and>
         (\<forall>k<N. fails_transiently client (text_request text api_key model) (calls w + k)) \<and>
         client (calls w + N) (text_request text api_key model) = Returned res \<longrightarrow>
         analyze_text_with_ai client loads text api_key model max_retries w =
           (parse_reply loads res,
            w\<lparr>calls := calls w + N + 1, sleeps := sleeps w @ map (\<lambda>i. 2 ^ i) [0..<N]\<rparr>)) \<and>
     ((\<forall>k\<le>nat max_retries.
         fails_transiently client (text_request text api_key model) (calls w + k)) \<longrightarrow>
         analyze_text_with_ai client loads text api_key model max_retries w =
           (Inr [(cp ''error'', JStr err_api)],
            w\<lparr>calls := calls w + nat max_retries + 1,
              sleeps := sleeps w @ map (\<lambda>i. 2 ^ i) [0..<nat max_retries]\<rparr>)) \<and>
     (\<forall>N res. int N \<le> max_retries \<and>
         (\<forall>k<N. fails_transiently client (image_request image_bytes api_key model) (calls w + k)) \<and>
         client (calls w + N) (image_request image_bytes api_key model) = Returned res \<longrightarrow>
         analyze_food_image_with_ai client loads image_bytes api_key model max_retries w =
           (parse_reply loads res,
            w\<lparr>calls := calls w + N + 1, sleeps := sleeps w @ map (\<lambda>i. 2 ^ i) [0..<N]\<rparr>)) \<and>
     ((\<forall>k\<le>nat max_retries.
         fails_transiently client (image_request image_bytes api_key model) (calls w + k)) \<longrightarrow>
         analyze_food_image_with_ai client loads image_bytes api_key model max_retries w =
           (Inr [(cp ''error'', JStr err_api)],
            w\<lparr>calls := calls w + nat max_retries + 1,
              sleeps := sleeps w @ map (\<lambda>i. 2 ^ i) [0..<nat max_retries]\<rparr>))"
proof -
  have ok: "after_loop loads (retry_loop client req max_retries 0 w) =
              (parse_reply loads res,
               w\<lparr>calls := calls w + N + 1, sleeps := sleeps w @ map (\<lambda>i. 2 ^ i) [0..<N]\<rparr>)"
    if "int N \<le> max_retries" "\<forall>k<N. fails_transiently client req (calls w + k)"
      "client (calls w + N) req = Returned res" for req N res
    using retry_loop_succeeds [OF that(2,3), of 0 max_retries] that(1)
    by (simp add: after_loop_def)
  have bad: "after_loop loads (retry_loop client req max_retries 0 w) =
              (Inr [(cp ''error'', JStr err_api)],
               w\<lparr>calls := calls w + nat max_retries + 1,
                 sleeps := sleeps w @ map (\<lambda>i. 2 ^ i) [0..<nat max_retries]\<rparr>)"
    if "\<forall>k\<le>nat max_retries. fails_transiently client req (calls w + k)" for req
    using retry_loop_gives_up [OF that, of 0 max_retries] assms
    by (simp add: after_loop_def)
  show ?thesis
    unfolding analyze_text_with_ai_def analyze_food_image_with_ai_def
    using ok bad by blast
qed

text \<open>
  An instance with the default bound 2: two rate-limit failures and then the reply \<open>{}\<close>
  give three calls and sleeps of 1 and 2 seconds; three connection failures give three
  calls, the same sleeps and the error value.
\<close>

theorem model_call_retry_witness:
  "analyze_text_with_ai (scripted_client [rate_limited, rate_limited, replies [123, 125]])
      (table_decoder [([123, 125], [])]) [] [] default_model 2 fresh
     = (Inr [], \<lparr>calls = 3, sleeps = [1, 2]\<rparr>) \<and>
   analyze_text_with_ai (scripted_client [connection_lost, connection_lost, connection_lost])
      (table_decoder []) [] [] default_model 2 fresh
     = (Inr [(cp ''error'', JStr err_api)], \<lparr>calls = 3, sleeps = [1, 2]\<rparr>) \<and>
   analyze_food_image_with_ai (scripted_client [rate_limited, rate_limited, replies [123, 125]])
      (table_decoder [([123, 125], [])]) [] [] default_model 2 fresh
     = (Inr [], \<lparr>calls = 3, sleeps = [1, 2]\<rparr>) \<and>
   analyze_food_image_with_ai (scripted_client [connection_lost, connection_lost, connection_lost])
      (table_decoder []) [] [] default_model 2 fresh
     = (Inr [(cp ''error'', JStr err_api)], \<lparr>calls = 3, sleeps = [1, 2]\<rparr>)"
proof -
  note defs = fails_transiently_def is_transient_def scripted_client_def rate_limited_def
    connection_lost_def replies_def fresh_def less_Suc_eq le_Suc_eq numeral_2_eq_2
    numeral_3_eq_3
  note flaky = model_call_retry
    [of 2 "scripted_client [rate_limited, rate_limited, replies [123, 125]]" "[]" "[]"
       default_model fresh "table_decoder [([123, 125], [])]" "[]"]
  note dead = model_call_retry
    [of 2 "scripted_client [connection_lost, connection_lost, connection_lost]" "[]" "[]"
       default_model fresh "table_decoder []" "[]"]
  have parsed: "parse_reply (table_decoder [([123, 125], [])]) (Response [Some [123, 125]]) = Inr []"
    by (simp add: parse_reply_def reply_content_def strip_def py_isspace_def match_here_def
        greedy_to_def table_decoder_def)
  have "analyze_text_with_ai (scripted_client [rate_limited, rate_limited, replies [123, 125]])
      (table_decoder [([123, 125], [])]) [] [] default_model 2 fresh
     = (Inr [], \<lparr>calls = 3, sleeps = [1, 2]\<rparr>)"
    using flaky [THEN conjunct1, rule_format, of 2 "Response [Some [123, 125]]"] parsed
    by (simp add: defs upt_rec [of 0])
  moreover have "analyze_text_with_ai
      (scripted_client [connection_lost, connection_lost, connection_lost])
      (table_decoder []) [] [] default_model 2 fresh
     = (Inr [(cp ''error'', JStr err_api)], \<lparr>calls = 3, sleeps = [1, 2]\<rparr>)"
    using dead [THEN conjunct2, THEN conjunct1]
    by (simp add: defs upt_rec [of 0])
  moreover have "analyze_food_image_with_ai
      (scripted_client [rate_limited, rate_limited, replies [123, 125]])
      (table_decoder [([123, 125], [])]) [] [] default_model 2 fresh
     = (Inr [], \<lparr>calls = 3, sleeps = [1, 2]\<rparr>)"
    using flaky [THEN conjunct2, THEN conjunct2, THEN conjunct1, rule_format,
        of 2 "Response [Some [123, 125]]"] parsed
    by (simp add: defs upt_rec [of 0])
  moreover have "analyze_food_image_with_ai
      (scripted_client [connection_lost, connection_lost, connection_lost])
      (table_decoder []) [] [] default_model 2 fresh
     = (Inr [(cp ''error'', JStr err_api)], \<lparr>calls = 3, sleeps = [1, 2]\<rparr>)"
    using dead [THEN conjunct2, THEN conjunct2, THEN conjunct2]
    by (simp add: defs upt_rec [of 0])
  ultimately show ?thesis
    by blast
qed

section \<open>The response parser\<close>

lemma greedy_to_none: "c \<notin> set r \<Longrightarrow> greedy_to c r = None"
  by (simp add: greedy_to_def)

lemma greedy_to_last: "c \<notin> set b \<Longrightarrow> greedy_to c (a @ c # b) = Some (a @ [c])"
  by (simp add: greedy_to_def dropWhile_append)

lemma re_search_no_open: "123 \<notin> set s \<Longrightarrow> re_search s = None"
  by (induction s) (auto simp: match_here_def)

lemma re_search_no_close: "125 \<notin> set s \<Longrightarrow> re_search s = None"
  by (induction s) (auto simp: match_here_def greedy_to_none)

lemma re_search_skip: "123 \<notin> set pre \<Longrightarrow> re_search (pre @ s) = re_search s"
  by (induction pre) (auto simp: match_here_def)

lemma re_search_outer:
  "123 \<notin> set pre \<Longrightarrow> 125 \<notin> set b \<Longrightarrow>
     re_search (pre @ 123 # a @ 125 # b) = Some (123 # a @ [125])"
  by (simp add: re_search_skip match_here_def greedy_to_last)

lemma first_to_last_brace_outer:
  "123 \<notin> set pre \<Longrightarrow> 125 \<notin> set b \<Longrightarrow>
     first_to_last_brace (pre @ 123 # a @ 125 # b) = 123 # a @ [125]"
  by (simp add: first_to_last_brace_def first_index_def last_index_def takeWhile_append)

lemma brace_span_decomp:
  fixes s :: pystr
  assumes "i < j" "j < length s" "s ! i = 123" "s ! j = 125"
  shows "\<exists>pre a b. s = pre @ 123 # a @ 125 # b \<and> 123 \<notin> set pre \<and> 125 \<notin> set b"
proof -
  have "123 \<in> set s" using assms by (metis nth_mem less_trans)
  then obtain pre r where s: "s = pre @ 123 # r" "123 \<notin> set pre"
    by (auto dest: split_list_first)
  have "length pre \<le> i"
  proof (rule ccontr)
    assume "\<not> length pre \<le> i"
    then have "s ! i \<in> set pre" using s by (simp add: nth_append)
    then show False using assms(3) s(2) by simp
  qed
  then have "s ! j = r ! (j - Suc (length pre))" "j - Suc (length pre) < length r"
    using assms(1,2) s(1) by (auto simp: nth_append nth_Cons')
  then have "125 \<in> set r" using assms(4) by (metis nth_mem)
  then obtain a b where "r = a @ 125 # b" "125 \<notin> set b"
    by (auto dest: split_list_last)
  then show ?thesis using s by blast
qed

lemma re_search_none_iff:
  "re_search s = None \<longleftrightarrow> \<not> (\<exists>i j. i < j \<and> j < length s \<and> s ! i = 123 \<and> s ! j = 125)"
proof
  assume none: "re_search s = None"
  show "\<not> (\<exists>i j. i < j \<and> j < length s \<and> s ! i = 123 \<and> s ! j = 125)"
  proof
    assume "\<exists>i j. i < j \<and> j < length s \<and> s ! i = 123 \<and> s ! j = 125"
    then obtain pre a b where "s = pre @ 123 # a @ 125 # b" "123 \<notin> set pre" "125 \<notin> set b"
      using brace_span_decomp by blast
    then show False using none by (simp add: re_search_outer)
  qed
next
  assume no: "\<not> (\<exists>i j. i < j \<and> j < length s \<and> s ! i = 123 \<and> s ! j = 125)"
  show "re_search s = None"
  proof (cases "123 \<in> set s")
    case False
    then show ?thesis by (simp add: re_search_no_open)
  next
    case True
    then obtain pre r where s: "s = pre @ 123 # r" "123 \<notin> set pre"
      by (auto dest: split_list_first)
    have "125 \<notin> set r"
    proof
      assume "125 \<in> set r"
      then obtain k where "k < length r" "r ! k = 125" by (auto simp: in_set_conv_nth)
      then have "length pre < length pre + Suc k \<and> length pre + Suc k < length s \<and>
                 s ! length pre = 123 \<and> s ! (length pre + Suc k) = 125"
        using s(1) by (simp add: nth_append)
      then show False using no by blast
    qed
    then show ?thesis
      using s by (simp add: re_search_skip match_here_def greedy_to_none re_search_no_close)
  qed
qed

lemma dropWhile_keep:
  "\<not> P x \<Longrightarrow> dropWhile P (pre @ x # r) = dropWhile P pre @ x # r"
  by (simp add: dropWhile_append)

lemma strip_core:
  assumes "\<not> py_isspace x" "\<not> py_isspace y"
  shows "strip (pre @ x # mid @ y # post) =
           dropWhile py_isspace pre @ x # mid @ y # rev (dropWhile py_isspace (rev post))"
proof -
  have front: "dropWhile py_isspace (pre @ x # mid @ y # post) =
                 dropWhile py_isspace pre @ x # mid @ y # post"
    using assms(1) by (rule dropWhile_keep)
  have "rev (dropWhile py_isspace pre @ x # mid @ y # post) =
          rev post @ y # (rev mid @ x # rev (dropWhile py_isspace pre))"
    by simp
  then have "dropWhile py_isspace (rev (dropWhile py_isspace pre @ x # mid @ y # post)) =
          dropWhile py_isspace (rev post) @ y # (rev mid @ x # rev (dropWhile py_isspace pre))"
    using assms(2)
      dropWhile_keep [of py_isspace y "rev post" "rev mid @ x # rev (dropWhile py_isspace pre)"]
    by simp
  then show ?thesis
    unfolding strip_def front by simp
qed

lemma braces_not_space: "\<not> py_isspace 123" "\<not> py_isspace 125"
  by (simp_all add: py_isspace_def)

lemma parse_reply_text:
  "choices res = Some reply # others \<Longrightarrow>
     parse_reply loads res =
       (case re_search (strip reply) of
          Some json_match \<Rightarrow>
            (case loads json_match of
               Inr d \<Rightarrow> Inr d
             | Inl e \<Rightarrow>
                 if exc_class e = JSONDecodeError
                 then Inr [(cp ''error'', JStr err_json), (cp ''raw'', JStr (strip reply))]
                 else Inl e)
        | None \<Rightarrow> Inr [(cp ''error'', JStr err_parse_failed), (cp ''raw'', JStr (strip reply))])"
  by (simp add: parse_reply_def reply_content_def)

lemma analyze_text_parses:
  "retry_loop client (text_request text api_key model) max_retries 0 w = (Break res, w') \<Longrightarrow>
     analyze_text_with_ai client loads text api_key model max_retries w = (parse_reply loads res, w')"
  by (simp add: analyze_text_with_ai_def after_loop_def)

lemma analyze_image_parses:
  "retry_loop client (image_request image_bytes api_key model) max_retries 0 w = (Break res, w') \<Longrightarrow>
     analyze_food_image_with_ai client loads image_bytes api_key model max_retries w =
       (parse_reply loads res, w')"
  by (simp add: analyze_food_image_with_ai_def after_loop_def)

text \<open>
  Claim C2. Let \<open>res\<close> be the reply the call phase ends with and \<open>reply\<close> its text.
  When the text has an opening brace with a closing brace somewhere after it, the regular
  expression matches exactly the substring of the stripped text from its first opening
  brace through its last closing brace, and the result of the parse step is the result of
  decoding that substring (the decoded mapping, or the error marker when the decoder raises
  \<open>JSONDecodeError\<close>). In particular, a reply that is one JSON object text with no
  opening brace before it and no closing brace after it parses to the decoded mapping.
  Both analysis functions return what this parse step returns.
\<close>

theorem response_parsing:
  assumes "choices res = Some reply # others"
  shows
    "(\<forall>i j. i < j \<and> j < length reply \<and> reply ! i = 123 \<and> reply ! j = 125 \<longrightarrow>
        re_search (strip reply) = Some (first_to_last_brace (strip reply)) \<and>
        parse_reply loads res =
          (case loads (first_to_last_brace (strip reply)) of
             Inr d \<Rightarrow> Inr d
           | Inl e \<Rightarrow>
               if exc_class e = JSONDecodeError
               then Inr [(cp ''error'', JStr err_json), (cp ''raw'', JStr (strip reply))]
               else Inl e)) \<and>
     (\<forall>pre body post d.
        reply = pre @ 123 # body @ 125 # post \<and> 123 \<notin> set pre \<and> 125 \<notin> set post \<and>
        loads (123 # body @ [125]) = Inr d \<longrightarrow>
        parse_reply loads res = Inr d) \<and>
     (\<forall>w'. retry_loop client (text_request text api_key model) max_retries 0 w = (Break res, w') \<longrightarrow>
        analyze_text_with_ai client loads text api_key model max_retries w =
          (parse_reply loads res, w')) \<and>
     (\<forall>w'. retry_loop client (image_request image_bytes api_key model) max_retries 0 w =
             (Break res, w') \<longrightarrow>
        analyze_food_image_with_ai client loads image_bytes api_key model max_retries w =
          (parse_reply loads res, w'))"
proof (intro conjI allI impI)
  fix i j
  assume "i < j \<and> j < length reply \<and> reply ! i = 123 \<and> reply ! j = 125"
  then obtain pre a b where
    split: "reply = pre @ 123 # a @ 125 # b" "123 \<notin> set pre" "125 \<notin> set b"
    using brace_span_decomp [of i j reply] by blast
  have stripped: "strip reply =
      dropWhile py_isspace pre @ 123 # a @ 125 # rev (dropWhile py_isspace (rev b))"
    unfolding split(1) using strip_core [OF braces_not_space] by simp
  have "123 \<notin> set (dropWhile py_isspace pre)"
    using split(2) by (auto dest: set_dropWhileD)
  moreover have "125 \<notin> set (rev (dropWhile py_isspace (rev b)))"
    using split(3) by (auto dest: set_dropWhileD)
  ultimately show found: "re_search (strip reply) = Some (first_to_last_brace (strip reply))"
    unfolding stripped by (simp add: re_search_outer first_to_last_brace_outer)
  show "parse_reply loads res =
          (case loads (first_to_last_brace (strip reply)) of
             Inr d \<Rightarrow> Inr d
           | Inl e \<Rightarrow>
               if exc_class e = JSONDecodeError
               then Inr [(cp ''error'', JStr err_json), (cp ''raw'', JStr (strip reply))]
               else Inl e)"
    using parse_reply_text [OF assms] found by simp
next
  fix pre body post d
  assume h: "reply = pre @ 123 # body @ 125 # post \<and> 123 \<notin> set pre \<and> 125 \<notin> set post \<and>
             loads (123 # body @ [125]) = Inr d"
  have stripped: "strip reply =
      dropWhile py_isspace pre @ 123 # body @ 125 # rev (dropWhile py_isspace (rev post))"
    using h strip_core [OF braces_not_space] by simp
  have "123 \<notin> set (dropWhile py_isspace pre)"
    using h by (auto dest: set_dropWhileD)
  moreover have "125 \<notin> set (rev (dropWhile py_isspace (rev post)))"
    using h by (auto dest: set_dropWhileD)
  ultimately have "re_search (strip reply) = Some (123 # body @ [125])"
    unfolding stripped by (rule re_search_outer)
  then show "parse_reply loads res = Inr d"
    using parse_reply_text [OF assms] h by simp
next
  fix w'
  assume "retry_loop client (text_request text api_key model) max_retries 0 w = (Break res, w')"
  then show "analyze_text_with_ai client loads text api_key model max_retries w =
               (parse_reply loads res, w')"
    by (rule analyze_text_parses)
next
  fix w'
  assume "retry_loop client (image_request image_bytes api_key model) max_retries 0 w =
            (Break res, w')"
  then show "analyze_food_image_with_ai client loads image_bytes api_key model max_retries w =
               (parse_reply loads res, w')"
    by (rule analyze_image_parses)
qed

lemma strip_sample: "strip sample_reply = [120, 32, 123, 34, 97, 34, 58, 49, 125]"
  by (simp add: strip_def sample_reply_def sample_object_text_def py_isspace_def)

lemma ftl: "first_to_last_brace [120, 32, 123, 34, 97, 34, 58, 49, 125] = sample_object_text"
  by (simp add: first_to_last_brace_def first_index_def last_index_def sample_object_text_def)

lemma one_call:
  "retry_loop (scripted_client [replies s]) req 2 0 fresh =
     (Break (Response [Some s]), \<lparr>calls = 1, sleeps = []\<rparr>)"
  by (simp add: scripted_client_def replies_def fresh_def)

text \<open>
  An instance: the sample reply, which has its opening brace at index 3 and its closing
  brace at index 9.
\<close>

theorem response_parsing_witness:
  "re_search (strip sample_reply) = Some sample_object_text \<and>
   parse_reply sample_decoder (Response [Some sample_reply]) = Inr sample_mapping \<and>
   analyze_text_with_ai (scripted_client [replies sample_reply]) sample_decoder [] []
       default_model 2 fresh = (Inr sample_mapping, \<lparr>calls = 1, sleeps = []\<rparr>) \<and>
   analyze_food_image_with_ai (scripted_client [replies sample_reply]) sample_decoder [] []
       default_model 2 fresh = (Inr sample_mapping, \<lparr>calls = 1, sleeps = []\<rparr>)"
proof -
  have res: "choices (Response [Some sample_reply]) = Some sample_reply # []"
    by simp
  note T = response_parsing [OF res, of sample_decoder "scripted_client [replies sample_reply]"
      "[]" "[]" default_model 2 fresh "[]"]
  have decoded: "sample_decoder sample_object_text = Inr sample_mapping"
    by (simp add: sample_decoder_def table_decoder_def)
  have braces: "(3::nat) < 9 \<and> 9 < length sample_reply \<and> sample_reply ! 3 = 123 \<and>
      sample_reply ! 9 = 125"
    by (simp add: sample_reply_def sample_object_text_def)
  have "re_search (strip sample_reply) = Some sample_object_text"
    using T [THEN conjunct1, rule_format, OF braces]
    by (simp add: strip_sample ftl)
  moreover have parsed: "parse_reply sample_decoder (Response [Some sample_reply]) = Inr sample_mapping"
    using T [THEN conjunct2, THEN conjunct1, rule_format,
        of "[32, 120, 32]" "[34, 97, 34, 58, 49]" "[32, 10]" sample_mapping] decoded
    by (simp add: sample_reply_def sample_object_text_def)
  moreover have "analyze_text_with_ai (scripted_client [replies sample_reply]) sample_decoder [] []
       default_model 2 fresh = (Inr sample_mapping, \<lparr>calls = 1, sleeps = []\<rparr>)"
    using T [THEN conjunct2, THEN conjunct2, THEN conjunct1, rule_format, OF one_call] parsed
    by simp
  moreover have "analyze_food_image_with_ai (scripted_client [replies sample_reply]) sample_decoder
       [] [] default_model 2 fresh = (Inr sample_mapping, \<lparr>calls = 1, sleeps = []\<rparr>)"
    using T [THEN conjunct2, THEN conjunct2, THEN conjunct2, rule_format, OF one_call] parsed
    by simp
  ultimately show ?thesis by blast
qed

text \<open>
  Claim C3, as the code has it. When the stripped reply text has no brace-to-brace span, or
  the decoder raises \<open>JSONDecodeError\<close> on the matched span, the parse step returns a
  mapping with the key \<open>error\<close> (the message "response parsing failed" in the first
  case, "JSON parsing error" in the second) and the key \<open>raw\<close>, and raises nothing;
  both analysis functions return that mapping. The \<open>raw\<close> key holds the reply text
  after \<open>strip()\<close>, not the unmodified reply.
\<close>

theorem parse_failure_marker:
  assumes "choices res = Some reply # others"
    and "re_search (strip reply) = None \<or>
         (\<exists>json_match e. re_search (strip reply) = Some json_match \<and>
            loads json_match = Inl e \<and> exc_class e = JSONDecodeError)"
  shows
    "parse_reply loads res =
       Inr [(cp ''error'',
             JStr (if re_search (strip reply) = None then err_parse_failed else err_json)),
            (cp ''raw'', JStr (strip reply))] \<and>
     (\<forall>w'. retry_loop client (text_request text api_key model) max_retries 0 w = (Break res, w') \<longrightarrow>
        analyze_text_with_ai client loads text api_key model max_retries w =
          (Inr [(cp ''error'',
                 JStr (if re_search (strip reply) = None then err_parse_failed else err_json)),
                (cp ''raw'', JStr (strip reply))], w')) \<and>
     (\<forall>w'. retry_loop client (image_request image_bytes api_key model) max_retries 0 w =
             (Break res, w') \<longrightarrow>
        analyze_food_image_with_ai client loads image_bytes api_key model max_retries w =
          (Inr [(cp ''error'',
                 JStr (if re_search (strip reply) = None then err_parse_failed else err_json)),
                (cp ''raw'', JStr (strip reply))], w'))"
proof -
  have marker: "parse_reply loads res =
       Inr [(cp ''error'',
             JStr (if re_search (strip reply) = None then err_parse_failed else err_json)),
            (cp ''raw'', JStr (strip reply))]"
    using assms(2) parse_reply_text [OF assms(1), of loads] by auto
  then show ?thesis
    by (simp add: analyze_text_parses analyze_image_parses)
qed

text \<open>
  Instances of both failure paths: the reply \<open>" x "\<close> (no span) and the reply
  \<open>"{x}"\<close> followed by a newline (a span the decoder rejects).
\<close>

theorem parse_failure_marker_witness:
  "parse_reply (table_decoder []) (Response [Some [32, 120, 32]]) =
     Inr [(cp ''error'', JStr err_parse_failed), (cp ''raw'', JStr [120])] \<and>
   parse_reply (table_decoder []) (Response [Some [123, 120, 125, 10]]) =
     Inr [(cp ''error'', JStr err_json), (cp ''raw'', JStr [123, 120, 125])] \<and>
   analyze_text_with_ai (scripted_client [replies [123, 120, 125, 10]]) (table_decoder []) [] []
       default_model 2 fresh =
     (Inr [(cp ''error'', JStr err_json), (cp ''raw'', JStr [123, 120, 125])],
      \<lparr>calls = 1, sleeps = []\<rparr>) \<and>
   analyze_food_image_with_ai (scripted_client [replies [123, 120, 125, 10]]) (table_decoder [])
       [] [] default_model 2 fresh =
     (Inr [(cp ''error'', JStr err_json), (cp ''raw'', JStr [123, 120, 125])],
      \<lparr>calls = 1, sleeps = []\<rparr>)"
proof -
  have s1: "strip [32, 120, 32] = [120]" and s2: "strip [123, 120, 125, 10] = [123, 120, 125]"
    by (simp_all add: strip_def py_isspace_def)
  have r1: "re_search [120] = None" and r2: "re_search [123, 120, 125] = Some [123, 120, 125]"
    by (simp_all add: match_here_def greedy_to_def)
  have h1: "re_search (strip [32, 120, 32]) = None \<or>
         (\<exists>json_match e. re_search (strip [32, 120, 32]) = Some json_match \<and>
            table_decoder [] json_match = Inl e \<and> exc_class e = JSONDecodeError)"
    unfolding s1 r1 by simp
  have h2: "re_search (strip [123, 120, 125, 10]) = None \<or>
         (\<exists>json_match e. re_search (strip [123, 120, 125, 10]) = Some json_match \<and>
            table_decoder [] json_match = Inl e \<and> exc_class e = JSONDecodeError)"
    unfolding s2 r2 by (simp add: table_decoder_def)
  have c1: "choices (Response [Some [32, 120, 32]]) = Some [32, 120, 32] # []"
    and c2: "choices (Response [Some [123, 120, 125, 10]]) = Some [123, 120, 125, 10] # []"
    by simp_all
  note A = parse_failure_marker [OF c1 h1, unfolded s1 r1]
  note B = parse_failure_marker [OF c2 h2,
      of "scripted_client [replies [123, 120, 125, 10]]" "[]" "[]" default_model 2 fresh "[]",
      unfolded s2 r2]
  have "parse_reply (table_decoder []) (Response [Some [32, 120, 32]]) =
     Inr [(cp ''error'', JStr err_parse_failed), (cp ''raw'', JStr [120])]"
    using A [THEN conjunct1] by simp
  moreover have "parse_reply (table_decoder []) (Response [Some [123, 120, 125, 10]]) =
     Inr [(cp ''error'', JStr err_json), (cp ''raw'', JStr [123, 120, 125])]"
    using B [THEN conjunct1] by simp
  moreover have "analyze_text_with_ai (scripted_client [replies [123, 120, 125, 10]])
       (table_decoder []) [] [] default_model 2 fresh =
     (Inr [(cp ''error'', JStr err_json), (cp ''raw'', JStr [123, 120, 125])],
      \<lparr>calls = 1, sleeps = []\<rparr>)"
    using B [THEN conjunct2, THEN conjunct1, rule_format, OF one_call] by simp
  moreover have "analyze_food_image_with_ai (scripted_client [replies [123, 120, 125, 10]])
       (table_decoder []) [] [] default_model 2 fresh =
     (Inr [(cp ''error'', JStr err_json), (cp ''raw'', JStr [123, 120, 125])],
      \<lparr>calls = 1, sleeps = []\<rparr>)"
    using B [THEN conjunct2, THEN conjunct2, rule_format, OF one_call] by simp
  ultimately show ?thesis by blast
qed

text \<open>
  The reply \<open>" x "\<close> has no braces: both functions return the marker, and its
  \<open>raw\<close> entry is \<open>"x"\<close>, which is not the reply as it was received.
\<close>

theorem raw_is_stripped_counterexample:
  "analyze_text_with_ai (scripted_client [replies [32, 120, 32]]) (table_decoder []) [] []
       default_model 2 fresh =
     (Inr [(cp ''error'', JStr err_parse_failed), (cp ''raw'', JStr [120])],
      \<lparr>calls = 1, sleeps = []\<rparr>) \<and>
   analyze_food_image_with_ai (scripted_client [replies [32, 120, 32]]) (table_decoder []) [] []
       default_model 2 fresh =
     (Inr [(cp ''error'', JStr err_parse_failed), (cp ''raw'', JStr [120])],
      \<lparr>calls = 1, sleeps = []\<rparr>) \<and>
   JStr [120] \<noteq> JStr [32, 120, 32]"
  by (simp add: analyze_text_with_ai_def analyze_food_image_with_ai_def after_loop_def
      scripted_client_def replies_def fresh_def parse_reply_def reply_content_def strip_def
      py_isspace_def match_here_def)

section \<open>Prompts and input normalizers\<close>

lemma py_in_prefix: "py_in sub (sub @ post)"
proof (cases "sub @ post")
  case Nil
  then show ?thesis by simp
next
  case (Cons c cs)
  have "startswith (sub @ post) sub"
    by (simp add: startswith_def)
  then show ?thesis
    unfolding Cons by simp
qed

lemma py_in_append: "py_in sub (pre @ sub @ post)"
  by (induction pre) (auto simp: py_in_prefix)

lemma py_in_imp: "py_in sub s \<Longrightarrow> \<exists>pre post. s = pre @ sub @ post"
proof (induction s)
  case Nil
  then show ?case by simp
next
  case (Cons c cs)
  show ?case
  proof (cases "startswith (c # cs) sub")
    case True
    then have "c # cs = [] @ sub @ drop (length sub) (c # cs)"
      unfolding startswith_def by (metis append_Nil append_take_drop_id)
    then show ?thesis by blast
  next
    case False
    with Cons obtain pre post where "cs = pre @ sub @ post" by auto
    then have "c # cs = (c # pre) @ sub @ post" by simp
    then show ?thesis by blast
  qed
qed

lemma py_in_iff: "py_in sub s \<longleftrightarrow> (\<exists>pre post. s = pre @ sub @ post)"
  using py_in_imp py_in_append by blast

text \<open>
  Claim C8. For every input text, the prompt that \<open>analyze_text_with_ai\<close> builds and
  sends contains the whole catalogue text (the twenty entries of \<open>MAJOR_ALLERGENS\<close>
  joined by a comma and a blank) and the whole input text as it was given: the prompt is
  the three literal pieces with the two texts between them. The builder is a total
  function of the input and the catalogue.
\<close>

theorem prompt_contains_catalog_and_text:
  "length MAJOR_ALLERGENS = 20 \<and>
   py_in (join [44, 32] MAJOR_ALLERGENS) (text_prompt text) \<and>
   py_in text (text_prompt text) \<and>
   text_prompt text =
     text_prompt_0 @ text @ text_prompt_1 @ join [44, 32] MAJOR_ALLERGENS @ text_prompt_2 \<and>
   req_content (text_request text api_key model) = TextOnly (text_prompt text)"
proof -
  have "length MAJOR_ALLERGENS = 20"
    by (simp add: MAJOR_ALLERGENS_def)
  moreover have "py_in (join [44, 32] MAJOR_ALLERGENS) (text_prompt text)"
    using py_in_append [of "join [44, 32] MAJOR_ALLERGENS" "text_prompt_0 @ text @ text_prompt_1"
        text_prompt_2]
    by (simp add: text_prompt_def catalog_text_def)
  moreover have "py_in text (text_prompt text)"
    using py_in_append [of "text" text_prompt_0]
    by (simp add: text_prompt_def)
  ultimately show ?thesis
    by (simp add: text_prompt_def catalog_text_def text_request_def)
qed

lemma extract_pages_ok:
  "extract_pages (map Inr texts) acc = Inr (acc @ concat (map (\<lambda>t. t @ [10]) texts))"
  by (induction texts arbitrary: acc) auto

lemma extract_pages_fail:
  "extract_pages (map Inr texts @ Inl e # rest) acc = Inl e"
  by (induction texts arbitrary: acc) auto

text \<open>
  Claim C7. When every page yields its text, \<open>extract_pdf_text\<close> returns the page
  texts in order, each followed by a newline. When the reader or a page raises, it returns
  the text "PDF read error: " followed by the message of the exception, and raises nothing.
\<close>

theorem pdf_text_extraction:
  "(\<forall>texts. pdf = Pages (map Inr texts) \<longrightarrow>
      extract_pdf_text pdf = concat (map (\<lambda>page_text. page_text @ [10]) texts)) \<and>
   (\<forall>e. pdf = Unreadable e \<longrightarrow> extract_pdf_text pdf = pdf_error_prefix @ exc_str e) \<and>
   (\<forall>texts e rest. pdf = Pages (map Inr texts @ Inl e # rest) \<longrightarrow>
      extract_pdf_text pdf = pdf_error_prefix @ exc_str e)"
  by (simp add: extract_pdf_text_def extract_pages_ok extract_pages_fail)

text \<open>
  Instances: two pages \<open>a\<close> and \<open>b\<close>; an unreadable file; a file whose second page
  raises (the text of the first page is then lost).
\<close>

theorem pdf_text_extraction_witness:
  "extract_pdf_text (Pages [Inr [97], Inr [98]]) = [97, 10, 98, 10] \<and>
   extract_pdf_text (Unreadable (Exc OtherException [120])) = pdf_error_prefix @ [120] \<and>
   extract_pdf_text (Pages [Inr [97], Inl (Exc OtherException [121]), Inr [98]]) =
     pdf_error_prefix @ [121]"
proof -
  note T = pdf_text_extraction
  have "extract_pdf_text (Pages [Inr [97], Inr [98]]) = [97, 10, 98, 10]"
    using T [of "Pages [Inr [97], Inr [98]]", THEN conjunct1, rule_format, of "[[97], [98]]"]
    by simp
  moreover have "extract_pdf_text (Unreadable (Exc OtherException [120])) = pdf_error_prefix @ [120]"
    using T [of "Unreadable (Exc OtherException [120])", THEN conjunct2, THEN conjunct1,
        rule_format, of "Exc OtherException [120]"]
    by simp
  moreover have "extract_pdf_text (Pages [Inr [97], Inl (Exc OtherException [121]), Inr [98]]) =
     pdf_error_prefix @ [121]"
    using T [of "Pages [Inr [97], Inl (Exc OtherException [121]), Inr [98]]", THEN conjunct2,
        THEN conjunct2, rule_format, of "[[97]]" "Exc OtherException [121]" "[Inr [98]]"]
    by simp
  ultimately show ?thesis by blast
qed





section \<open>The report synthesizer\<close>

lemma report_calls_once:
  "snd (generate_ai_report client dumps now analysis_results source_type api_key model w) =
     w\<lparr>calls := Suc (calls w)\<rparr>"
  by (simp add: generate_ai_report_def Let_def split: api_outcome.splits sum.splits)

text \<open>
  Claim C4, as the code has it. \<open>generate_ai_report\<close> always returns a text and raises
  nothing. When the call returns a reply with text, the result is that text stripped of
  surrounding whitespace. When the call raises, or the reply has no choice or no text, the
  result is "report generation failed: " followed by the message of the exception, which
  is not empty. The result is empty only when the reply text is empty or all whitespace.
\<close>

theorem report_always_text:
  "(\<forall>reply others.
      client (calls w) (report_request (dumps analysis_results) source_type now api_key model) =
        Returned (Response (Some reply # others)) \<longrightarrow>
      fst (generate_ai_report client dumps now analysis_results source_type api_key model w) =
        strip reply) \<and>
   (\<forall>e.
      client (calls w) (report_request (dumps analysis_results) source_type now api_key model) =
        Raised e \<longrightarrow>
      fst (generate_ai_report client dumps now analysis_results source_type api_key model w) =
        report_failed @ exc_str e) \<and>
   (\<forall>others.
      client (calls w) (report_request (dumps analysis_results) source_type now api_key model) =
        Returned (Response (None # others)) \<longrightarrow>
      fst (generate_ai_report client dumps now analysis_results source_type api_key model w) =
        report_failed @ msg_none_strip) \<and>
   (client (calls w) (report_request (dumps analysis_results) source_type now api_key model) =
        Returned (Response []) \<longrightarrow>
      fst (generate_ai_report client dumps now analysis_results source_type api_key model w) =
        report_failed @ msg_index_error) \<and>
   (fst (generate_ai_report client dumps now analysis_results source_type api_key model w) = [] \<longrightarrow>
      (\<exists>reply others.
         client (calls w) (report_request (dumps analysis_results) source_type now api_key model) =
           Returned (Response (Some reply # others)) \<and>
         strip reply = []))"
proof -
  let ?req = "report_request (dumps analysis_results) source_type now api_key model"
  let ?out = "fst (generate_ai_report client dumps now analysis_results source_type api_key model w)"
  have nonempty: "report_failed @ m \<noteq> []" for m
    unfolding report_failed_def by simp
  have raised: "?out = report_failed @ exc_str e" if "client (calls w) ?req = Raised e" for e
    using that by (simp add: generate_ai_report_def)
  have returned: "?out =
      (case cs of
         [] \<Rightarrow> report_failed @ msg_index_error
       | None # _ \<Rightarrow> report_failed @ msg_none_strip
       | Some reply # _ \<Rightarrow> strip reply)"
    if "client (calls w) ?req = Returned (Response cs)" for cs
    using that
    by (simp add: generate_ai_report_def reply_content_def split: list.splits option.splits)
  have empty: "\<exists>reply others. client (calls w) ?req = Returned (Response (Some reply # others)) \<and>
      strip reply = []" if "?out = []"
  proof (cases "client (calls w) ?req")
    case (Raised e)
    then show ?thesis using raised [OF Raised] that nonempty by simp
  next
    case (Returned res)
    obtain cs where res: "res = Response cs" by (cases res)
    show ?thesis
      using returned [of cs] Returned that nonempty unfolding res
      by (auto split: list.splits option.splits)
  qed
  show ?thesis
    using raised returned empty by (auto simp del: not_None_eq)
qed

text \<open>
  Instances, each with one scripted answer: the reply \<open>" ok"\<close> and a newline gives
  \<open>"ok"\<close>; a connection error, a reply without text and a reply without choices give
  the failure text; a reply of a blank and a newline gives the empty text.
\<close>

theorem report_always_text_witness:
  "fst (generate_ai_report (scripted_client [replies [32, 111, 107, 10]]) sample_dumps []
          [sample_mapping] [] [] default_model fresh) = [111, 107] \<and>
   fst (generate_ai_report (scripted_client [connection_lost]) sample_dumps []
          [sample_mapping] [] [] default_model fresh) = report_failed \<and>
   fst (generate_ai_report (scripted_client [Returned (Response [None])]) sample_dumps []
          [sample_mapping] [] [] default_model fresh) = report_failed @ msg_none_strip \<and>
   fst (generate_ai_report (scripted_client [Returned (Response [])]) sample_dumps []
          [sample_mapping] [] [] default_model fresh) = report_failed @ msg_index_error \<and>
   (\<exists>reply others.
      scripted_client [replies [32, 10]] 0
          (report_request (sample_dumps [sample_mapping]) [] [] [] default_model) =
        Returned (Response (Some reply # others)) \<and>
      strip reply = [])"
proof -
  note defs = scripted_client_def replies_def connection_lost_def fresh_def
  have blank: "strip [32, 10] = []" and ok: "strip [32, 111, 107, 10] = [111, 107]"
    by (simp_all add: strip_def py_isspace_def)
  have "fst (generate_ai_report (scripted_client [replies [32, 111, 107, 10]]) sample_dumps []
          [sample_mapping] [] [] default_model fresh) = [111, 107]"
    using report_always_text [of "scripted_client [replies [32, 111, 107, 10]]" fresh
        sample_dumps "[sample_mapping]" "[]" "[]" "[]" default_model,
        THEN conjunct1, rule_format, of "[32, 111, 107, 10]" "[]"]
    by (simp add: defs ok)
  moreover have "fst (generate_ai_report (scripted_client [connection_lost]) sample_dumps []
          [sample_mapping] [] [] default_model fresh) = report_failed"
    using report_always_text [of "scripted_client [connection_lost]" fresh
        sample_dumps "[sample_mapping]" "[]" "[]" "[]" default_model,
        THEN conjunct2, THEN conjunct1, rule_format, of "Exc APIConnectionError []"]
    by (simp add: defs)
  moreover have "fst (generate_ai_report (scripted_client [Returned (Response [None])])
          sample_dumps [] [sample_mapping] [] [] default_model fresh) =
        report_failed @ msg_none_strip"
    using report_always_text [of "scripted_client [Returned (Response [None])]" fresh
        sample_dumps "[sample_mapping]" "[]" "[]" "[]" default_model,
        THEN conjunct2, THEN conjunct2, THEN conjunct1, rule_format, of "[]"]
    by (simp add: defs)
  moreover have "fst (generate_ai_report (scripted_client [Returned (Response [])])
          sample_dumps [] [sample_mapping] [] [] default_model fresh) =
        report_failed @ msg_index_error"
    using report_always_text [of "scripted_client [Returned (Response [])]" fresh
        sample_dumps "[sample_mapping]" "[]" "[]" "[]" default_model,
        THEN conjunct2, THEN conjunct2, THEN conjunct2, THEN conjunct1]
    by (simp add: defs)
  moreover have "\<exists>reply others.
      scripted_client [replies [32, 10]] 0
          (report_request (sample_dumps [sample_mapping]) [] [] [] default_model) =
        Returned (Response (Some reply # others)) \<and>
      strip reply = []"
  proof -
    have "fst (generate_ai_report (scripted_client [replies [32, 10]]) sample_dumps []
          [sample_mapping] [] [] default_model fresh) = []"
      by (simp add: generate_ai_report_def reply_content_def defs blank)
    then show ?thesis
      using report_always_text [of "scripted_client [replies [32, 10]]" fresh
          sample_dumps "[sample_mapping]" "[]" "[]" "[]" default_model,
          THEN conjunct2, THEN conjunct2, THEN conjunct2, THEN conjunct2]
      by (simp add: defs)
  qed
  ultimately show ?thesis by blast
qed

text \<open>
  The claim's "always non-empty" fails: when the service answers with a blank and a
  newline, the returned report is the empty text.
\<close>

theorem report_empty_counterexample:
  "generate_ai_report (scripted_client [replies [32, 10]]) sample_dumps []
      [sample_mapping] [] [] default_model fresh = ([], \<lparr>calls = 1, sleeps = []\<rparr>)"
  by (simp add: generate_ai_report_def reply_content_def scripted_client_def replies_def
      fresh_def strip_def py_isspace_def)

section \<open>Partial success over several images\<close>

lemma run_analyses_Cons:
  assumes "run_analyses env api_key (img # rest) w = (map Inr results, w1)"
  obtains r rs w' where "results = r # rs"
    and "analyze_food_image_with_ai (env_client env) (env_loads env) img api_key
           default_model default_max_retries w = (Inr r, w')"
    and "run_analyses env api_key rest w' = (map Inr rs, w1)"
  using assms
  by (cases results) (auto split: prod.splits)

lemma images_loop_spec:
  assumes "run_analyses env api_key images w = (map Inr results, w1)"
    and "\<forall>k<length results. succeeded (results ! k) \<longrightarrow>
           snd (render_image_result (i + k) (results ! k)) = None"
  shows "analyze_images_loop env api_key n i images acc w scr =
           (Inr (acc @ filter succeeded results), w1, scr @ per_image_shown n i results)"
  using assms
proof (induction images arbitrary: results i acc w scr)
  case Nil
  then show ?case by auto
next
  case (Cons img rest)
  from Cons.prems(1) obtain r rs w' where
    results: "results = r # rs"
    and first: "analyze_food_image_with_ai (env_client env) (env_loads env) img api_key
           default_model default_max_retries w = (Inr r, w')"
    and others: "run_analyses env api_key rest w' = (map Inr rs, w1)"
    by (rule run_analyses_Cons)
  have renders: "\<forall>k<length rs. succeeded (rs ! k) \<longrightarrow>
           snd (render_image_result (Suc i + k) (rs ! k)) = None"
    using Cons.prems(2) unfolding results by (auto dest: spec [where x = "Suc k" for k])
  note IH = Cons.IH [OF others renders]
  show ?case
  proof (cases "succeeded r")
    case True
    then have "snd (render_image_result i r) = None"
      using Cons.prems(2) unfolding results by (auto dest: spec [where x = 0])
    then obtain events where "render_image_result i r = (events, None)"
      by (cases "render_image_result i r") auto
    then show ?thesis
      using True first IH unfolding results by (simp add: succeeded_def)
  next
    case False
    then show ?thesis
      using first IH unfolding results by (simp add: succeeded_def)
  qed
qed

lemma run_analyses_length:
  "run_analyses env api_key images w = (rs, w1) \<Longrightarrow> length rs = length images"
  by (induction images arbitrary: rs w) (auto split: prod.splits)

text \<open>
  Claim C9, as the code has it. Suppose every image's analysis returns a mapping (no
  exception leaves \<open>analyze_food_image_with_ai\<close>) and the display of every successful
  result runs to its end. Then the handler ends normally; the screen shows, image by
  image, the display of a success or the separate failure message of a result with an
  \<open>error\<close> key; and the report is generated exactly when at least one analysis
  succeeded, from exactly the successful results in upload order. With no success there is
  no call for a report and nothing of a report on the screen.
\<close>

theorem partial_success_report:
  assumes "run_analyses env api_key images w = (map Inr results, w1)"
    and "\<forall>k<length results. succeeded (results ! k) \<longrightarrow>
           snd (render_image_result k (results ! k)) = None"
  shows "analyze_images_handler env api_key images w =
           (None,
            (if filter succeeded results = [] then w1
             else fst (report_section env (filter succeeded results) t_source_images api_key w1)),
            [(StProgress, [Val (JInt 0)])] @ per_image_shown (length results) 0 results @
            [(StProgress, [Val (JFloat (Finite 1))]), (StText, [Lit t_all_done])] @
            (if filter succeeded results = [] then []
             else (StSuccess, [Lit t_check, Val (JInt (int (length (filter succeeded results)))),
                               Lit t_images_done]) #
                  snd (report_section env (filter succeeded results) t_source_images api_key w1)))"
proof -
  have n: "length images = length results"
    using run_analyses_length [OF assms(1)] by simp
  have "analyze_images_loop env api_key (length images) 0 images [] w [(StProgress, [Val (JInt 0)])] =
          (Inr ([] @ filter succeeded results), w1,
           [(StProgress, [Val (JInt 0)])] @ per_image_shown (length images) 0 results)"
    using assms by (intro images_loop_spec) auto
  then show ?thesis
    unfolding analyze_images_handler_def n
    by (simp split: prod.splits)
qed

lemma parse_sample: "parse_reply sample_decoder (Response [Some sample_reply]) = Inr sample_mapping"
  by (simp add: parse_reply_def reply_content_def strip_def py_isspace_def sample_reply_def
      sample_object_text_def match_here_def greedy_to_def sample_decoder_def table_decoder_def)

lemma cp_error: "cp ''error'' = [101, 114, 114, 111, 114]"
  by (simp add: cp_def)

lemma succeeded_sample: "succeeded sample_mapping" "\<not> succeeded [(cp ''error'', JStr m)]"
  by (simp_all add: succeeded_def has_key_def sample_mapping_def cp_def)

lemma render_plain:
  "map_of result (cp ''menu_items'') = None \<Longrightarrow> map_of result (cp ''overall_assessment'') = None \<Longrightarrow>
     render_image_result i result =
       ([(StExpander, [Lit t_image_expander, Val (JInt (int i + 1)), Lit t_result_suffix])], None)"
  by (simp add: render_image_result_def when_key_def andthen_def shown_def)

lemma render_sample:
  "render_image_result i sample_mapping =
       ([(StExpander, [Lit t_image_expander, Val (JInt (int i + 1)), Lit t_result_suffix])], None)"
  by (rule render_plain) (simp_all add: sample_mapping_def cp_def)

lemma three_images:
  "run_analyses
     (sample_env [replies sample_reply, connection_lost, connection_lost, connection_lost,
                  replies sample_reply, replies [111, 107]])
     [] [[1], [2], [3]] fresh =
   (map Inr [sample_mapping, [(cp ''error'', JStr err_api)], sample_mapping],
    \<lparr>calls = 5, sleeps = [1, 2]\<rparr>)"
  by (simp add: sample_env_def analyze_food_image_with_ai_def after_loop_def scripted_client_def
      replies_def connection_lost_def is_transient_def fresh_def default_max_retries_def parse_sample)

lemma report_ok:
  "report_section
     (sample_env [replies sample_reply, connection_lost, connection_lost, connection_lost,
                  replies sample_reply, replies [111, 107]])
     results t_source_images [] \<lparr>calls = 5, sleeps = naps\<rparr> =
   (\<lparr>calls = 6, sleeps = naps\<rparr>,
    [(StMarkdown, [Lit t_report_heading]), (StTextArea, [Lit [111, 107]]),
     (StDownloadButton, [Lit t_download_label, Lit [111, 107], Lit t_report_file_prefix, Lit [],
                         Lit (cp ''.txt'')])])"
  by (simp add: report_section_def generate_ai_report_def sample_env_def scripted_client_def
      replies_def reply_content_def strip_def py_isspace_def)

text \<open>
  The specification's example: three images, of which the second fails after three
  connection errors. The report is generated from the other two, and the failure of the
  second is shown on its own.
\<close>

theorem partial_success_report_witness:
  "analyze_images_handler
     (sample_env [replies sample_reply, connection_lost, connection_lost, connection_lost,
                  replies sample_reply, replies [111, 107]])
     [] [[1], [2], [3]] fresh =
   (None, \<lparr>calls = 6, sleeps = [1, 2]\<rparr>,
    [(StProgress, [Val (JInt 0)])] @
    progress_events 0 3 @
    [(StExpander, [Lit t_image_expander, Val (JInt 1), Lit t_result_suffix])] @
    progress_events 1 3 @
    [image_failure_shown 1 [(cp ''error'', JStr err_api)]] @
    progress_events 2 3 @
    [(StExpander, [Lit t_image_expander, Val (JInt 3), Lit t_result_suffix])] @
    [(StProgress, [Val (JFloat (Finite 1))]), (StText, [Lit t_all_done]),
     (StSuccess, [Lit t_check, Val (JInt 2), Lit t_images_done]),
     (StMarkdown, [Lit t_report_heading]), (StTextArea, [Lit [111, 107]]),
     (StDownloadButton, [Lit t_download_label, Lit [111, 107], Lit t_report_file_prefix, Lit [],
                         Lit (cp ''.txt'')])])"
proof -
  let ?results = "[sample_mapping, [(cp ''error'', JStr err_api)], sample_mapping]"
  have shown: "\<forall>k<length ?results. succeeded (?results ! k) \<longrightarrow>
      snd (render_image_result k (?results ! k)) = None"
    by (simp add: less_Suc_eq numeral_3_eq_3 render_sample succeeded_sample)
  have kept: "filter succeeded ?results = [sample_mapping, sample_mapping]"
    by (simp add: succeeded_sample)
  show ?thesis
    using partial_success_report [OF three_images shown]
    unfolding kept
    by (simp add: report_ok render_sample succeeded_sample numeral_2_eq_2 numeral_3_eq_3)
qed

text \<open>
  The claim without the proviso fails: the first of two images is analysed with success,
  the call for the second is refused with an error the retry loop does not catch, the
  exception leaves the handler and no report is generated.
\<close>

theorem partial_success_counterexample:
  "analyze_images_handler (sample_env [replies sample_reply, refused]) [] [[1], [2]] fresh =
     (Some (Exc OtherAPIError (cp ''invalid api key'')), \<lparr>calls = 2, sleeps = []\<rparr>,
      [(StProgress, [Val (JInt 0)])] @
      progress_events 0 2 @
      [(StExpander, [Lit t_image_expander, Val (JInt 1), Lit t_result_suffix])] @
      progress_events 1 2) \<and>
   analyze_food_image_with_ai (env_client (sample_env [replies sample_reply, refused]))
       (env_loads (sample_env [replies sample_reply, refused])) [1] [] default_model
       default_max_retries fresh =
     (Inr sample_mapping, \<lparr>calls = 1, sleeps = []\<rparr>) \<and>
   succeeded sample_mapping"
  by (simp add: analyze_images_handler_def sample_env_def analyze_food_image_with_ai_def
      after_loop_def scripted_client_def replies_def refused_def is_transient_def fresh_def
      default_max_retries_def parse_sample render_sample succeeded_sample
      succeeded_sample(1) [unfolded succeeded_def] numeral_2_eq_2)

section \<open>The PDF tab\<close>

text \<open>Every analysis makes at least one call, and so does every report.\<close>

lemma retry_loop_calls:
  "i \<le> max_retries \<Longrightarrow> calls w < calls (snd (retry_loop client req max_retries i w))"
proof (induction client req max_retries i w rule: retry_loop.induct)
  case (1 client req max_retries i w)
  show ?case
  proof (cases "client (calls w) req")
    case (Returned res)
    then show ?thesis using "1.prems" by simp
  next
    case (Raised e)
    show ?thesis
    proof (cases "is_transient e \<and> i \<noteq> max_retries")
      case True
      then have "calls (w\<lparr>calls := Suc (calls w), sleeps := sleeps w @ [2 ^ nat i]\<rparr>)
          < calls (snd (retry_loop client req max_retries (i + 1)
                     (w\<lparr>calls := Suc (calls w), sleeps := sleeps w @ [2 ^ nat i]\<rparr>)))"
        using "1.IH" [of e] "1.prems" Raised by simp
      then show ?thesis
        using True Raised "1.prems" by simp
    next
      case False
      then show ?thesis using Raised "1.prems" by auto
    qed
  qed
qed

lemma after_loop_world: "snd (after_loop loads r) = snd r"
  by (cases r) (auto simp: after_loop_def split: loop_exit.splits)

lemma analyze_text_calls:
  "calls w < calls (snd (analyze_text_with_ai client loads text api_key model default_max_retries w))"
  using retry_loop_calls [of 0 default_max_retries w client]
  by (simp add: analyze_text_with_ai_def after_loop_world default_max_retries_def)

lemma report_section_calls:
  "calls (fst (report_section env results source_type api_key w)) = Suc (calls w)"
proof -
  obtain report w' where g: "generate_ai_report (env_client env) (env_dumps env) (env_now env)
      results source_type api_key default_model w = (report, w')"
    by (cases "generate_ai_report (env_client env) (env_dumps env) (env_now env)
      results source_type api_key default_model w")
  then have "w' = w\<lparr>calls := Suc (calls w)\<rparr>"
    using report_calls_once [of "env_client env" "env_dumps env" "env_now env" results
        source_type api_key default_model w]
    by simp
  then show ?thesis
    using g by (simp add: report_section_def)
qed

lemma analyze_and_report_calls:
  "calls w < calls (fst (snd (analyze_and_report env api_key text render source_type w)))"
proof -
  obtain r w1 where a: "analyze_text_with_ai (env_client env) (env_loads env) text api_key
      default_model default_max_retries w = (r, w1)"
    by (cases "analyze_text_with_ai (env_client env) (env_loads env) text api_key
      default_model default_max_retries w")
  have less: "calls w < calls w1"
    using analyze_text_calls [of w "env_client env" "env_loads env" "text" api_key default_model] a
    by simp
  show ?thesis
  proof (cases r)
    case (Inl e)
    then show ?thesis using a less by (simp add: analyze_and_report_def)
  next
    case (Inr result)
    obtain events ended where rendered: "render result = (events, ended)"
      by (cases "render result")
    obtain w2 report_shown where
      rep: "report_section env [result] source_type api_key w1 = (w2, report_shown)"
      by (cases "report_section env [result] source_type api_key w1")
    have "calls w2 = Suc (calls w1)"
      using report_section_calls [of env "[result]" source_type api_key w1] rep by simp
    then show ?thesis
      using a less Inr rendered rep
      by (cases ended) (simp_all add: analyze_and_report_def)
  qed
qed

text \<open>
  Claim C10. The PDF handler goes on to the analysis exactly when the text that
  \<open>extract_pdf_text\<close> returned does not contain the word "oryu" (error): calls to the
  service are made if and only if the word is absent. When the word is absent, the handler
  shows a preview of the extracted text and runs \<open>analyze_text_with_ai\<close> on that text;
  what it returns and shows is then fixed by the outcome of that analysis: the exception
  that left it, the failure message for a result with an \<open>error\<close> key, or the display
  of the result followed by the report generated from it. When the word is present, the
  handler shows the text as an error message and does nothing else. This also hits a PDF
  that was extracted without any failure: the sample file, whose page reads
  "ssalbap oryu", is shown as an error and never analysed.
\<close>

theorem pdf_error_word_gate:
  "(calls (fst (snd (analyze_pdf_handler env api_key pdf w))) \<noteq> calls w) =
      (\<not> py_in oryu (extract_pdf_text pdf)) \<and>
   (py_in oryu (extract_pdf_text pdf) \<longrightarrow>
      analyze_pdf_handler env api_key pdf w = (None, w, [(StError, [Lit (extract_pdf_text pdf)])])) \<and>
   (\<not> py_in oryu (extract_pdf_text pdf) \<longrightarrow>
      analyze_pdf_handler env api_key pdf w =
        (let preview = [(StWrite, [Lit t_pdf_preview]),
                        (StTextArea, [Lit (take 1000 (extract_pdf_text pdf) @ cp ''...'')])]
         in case analyze_text_with_ai (env_client env) (env_loads env) (extract_pdf_text pdf)
                   api_key default_model default_max_retries w of
              (Inl e, w1) \<Rightarrow> (Some e, w1, preview)
            | (Inr result, w1) \<Rightarrow>
                if has_key (cp ''error'') result
                then (None, w1, preview @ [failure_shown result])
                else (case render_pdf_result result of
                        (events, Some e) \<Rightarrow> (Some e, w1, preview @ events)
                      | (events, None) \<Rightarrow>
                          (case report_section env [result] t_source_pdf api_key w1 of
                             (w2, report_shown) \<Rightarrow>
                               (None, w2, preview @ events @ report_shown))))) \<and>
   extract_pdf_text sample_pdf_with_error_word = ssalbap @ [32] @ oryu @ [10] \<and>
   analyze_pdf_handler env api_key sample_pdf_with_error_word w =
     (None, w, [(StError, [Lit (ssalbap @ [32] @ oryu @ [10])])])"
proof -
  have sample: "extract_pdf_text sample_pdf_with_error_word = ssalbap @ [32] @ oryu @ [10]"
    by (simp add: extract_pdf_text_def sample_pdf_with_error_word_def)
  have "py_in oryu (ssalbap @ [32] @ oryu @ [10])"
    using py_in_append [of oryu "ssalbap @ [32]" "[10]"] by simp
  then have gated: "analyze_pdf_handler env api_key sample_pdf_with_error_word w =
     (None, w, [(StError, [Lit (ssalbap @ [32] @ oryu @ [10])])])"
    by (simp add: analyze_pdf_handler_def sample)
  have moved: "calls w < calls (fst (snd (analyze_pdf_handler env api_key pdf w)))"
    if "\<not> py_in oryu (extract_pdf_text pdf)"
    using that analyze_and_report_calls [of w env api_key "extract_pdf_text pdf" render_pdf_result
        t_source_pdf]
    by (cases "analyze_and_report env api_key (extract_pdf_text pdf) render_pdf_result
        t_source_pdf w") (simp add: analyze_pdf_handler_def)
  have stays: "analyze_pdf_handler env api_key pdf w =
      (None, w, [(StError, [Lit (extract_pdf_text pdf)])])"
    if "py_in oryu (extract_pdf_text pdf)"
    using that by (simp add: analyze_pdf_handler_def)
  have analysed: "analyze_pdf_handler env api_key pdf w =
        (let preview = [(StWrite, [Lit t_pdf_preview]),
                        (StTextArea, [Lit (take 1000 (extract_pdf_text pdf) @ cp ''...'')])]
         in case analyze_text_with_ai (env_client env) (env_loads env) (extract_pdf_text pdf)
                   api_key default_model default_max_retries w of
              (Inl e, w1) \<Rightarrow> (Some e, w1, preview)
            | (Inr result, w1) \<Rightarrow>
                if has_key (cp ''error'') result
                then (None, w1, preview @ [failure_shown result])
                else (case render_pdf_result result of
                        (events, Some e) \<Rightarrow> (Some e, w1, preview @ events)
                      | (events, None) \<Rightarrow>
                          (case report_section env [result] t_source_pdf api_key w1 of
                             (w2, report_shown) \<Rightarrow>
                               (None, w2, preview @ events @ report_shown))))"
    if "\<not> py_in oryu (extract_pdf_text pdf)"
    using that
    by (simp add: analyze_pdf_handler_def analyze_and_report_def Let_def
        split: prod.splits sum.splits option.splits)
  have "(calls (fst (snd (analyze_pdf_handler env api_key pdf w))) \<noteq> calls w) =
      (\<not> py_in oryu (extract_pdf_text pdf))"
  proof (cases "py_in oryu (extract_pdf_text pdf)")
    case True
    then show ?thesis using stays by simp
  next
    case False
    then show ?thesis using moved by simp
  qed
  then show ?thesis
    using stays analysed sample gated by blast
qed

text \<open>
  Instances: the sample file is shown as an error and no call is made; a file whose page
  reads "kimchi" is previewed and analysed, and the report is generated, two calls in all.
\<close>

theorem pdf_error_word_gate_witness:
  "analyze_pdf_handler (sample_env [replies sample_reply, replies [111, 107]]) []
       sample_pdf_with_error_word fresh =
     (None, fresh, [(StError, [Lit (ssalbap @ [32] @ oryu @ [10])])]) \<and>
   calls (fst (snd (analyze_pdf_handler (sample_env [replies sample_reply, replies [111, 107]]) []
                      (Pages [Inr kimchi]) fresh))) \<noteq> calls fresh \<and>
   analyze_pdf_handler (sample_env [replies sample_reply, replies [111, 107]]) []
       (Pages [Inr kimchi]) fresh =
     (None, \<lparr>calls = 2, sleeps = []\<rparr>,
      [(StWrite, [Lit t_pdf_preview]),
       (StTextArea, [Lit (kimchi @ [10] @ cp ''...'')]),
       (StSuccess, [Lit t_analysis_done]),
       (StMarkdown, [Lit t_report_heading]), (StTextArea, [Lit [111, 107]]),
       (StDownloadButton, [Lit t_download_label, Lit [111, 107], Lit t_report_file_prefix, Lit [],
                           Lit (cp ''.txt'')])])"
proof -
  let ?env = "sample_env [replies sample_reply, replies [111, 107]]"
  have word: "py_in oryu (extract_pdf_text sample_pdf_with_error_word)"
    by (simp add: extract_pdf_text_def sample_pdf_with_error_word_def ssalbap_def oryu_def
        startswith_def)
  have extracted: "extract_pdf_text (Pages [Inr kimchi]) = kimchi @ [10]"
    by (simp add: extract_pdf_text_def)
  have clean: "\<not> py_in oryu (extract_pdf_text (Pages [Inr kimchi]))"
    by (simp add: extract_pdf_text_def kimchi_def oryu_def startswith_def)
  have short: "take 1000 (kimchi @ [10]) = kimchi @ [10]"
    by (simp add: kimchi_def)
  have analysis: "analyze_text_with_ai (env_client ?env) (env_loads ?env) (kimchi @ [10]) []
      default_model default_max_retries fresh = (Inr sample_mapping, \<lparr>calls = 1, sleeps = []\<rparr>)"
    by (simp add: analyze_text_with_ai_def after_loop_def sample_env_def scripted_client_def
        replies_def fresh_def default_max_retries_def parse_sample)
  have plain: "render_pdf_result sample_mapping = ([(StSuccess, [Lit t_analysis_done])], None)"
    by (simp add: render_pdf_result_def when_key_def andthen_def shown_def sample_mapping_def
        cp_def)
  have report: "report_section ?env [sample_mapping] t_source_pdf [] \<lparr>calls = Suc 0, sleeps = []\<rparr> =
      (\<lparr>calls = 2, sleeps = []\<rparr>,
       [(StMarkdown, [Lit t_report_heading]), (StTextArea, [Lit [111, 107]]),
        (StDownloadButton, [Lit t_download_label, Lit [111, 107], Lit t_report_file_prefix,
                            Lit [], Lit (cp ''.txt'')])])"
    by (simp add: report_section_def generate_ai_report_def sample_env_def scripted_client_def
        replies_def reply_content_def strip_def py_isspace_def)
  have ok: "\<not> has_key (cp ''error'') sample_mapping"
    using succeeded_sample(1) by (simp add: succeeded_def)
  note T = pdf_error_word_gate [of ?env "[]" _ fresh]
  have "analyze_pdf_handler ?env [] sample_pdf_with_error_word fresh =
     (None, fresh, [(StError, [Lit (ssalbap @ [32] @ oryu @ [10])])])"
    using T [of sample_pdf_with_error_word, THEN conjunct2, THEN conjunct1] word
    by (simp add: extract_pdf_text_def sample_pdf_with_error_word_def)
  moreover have "calls (fst (snd (analyze_pdf_handler ?env [] (Pages [Inr kimchi]) fresh)))
      \<noteq> calls fresh"
    using T [of "Pages [Inr kimchi]", THEN conjunct1] clean
    by simp
  moreover have "analyze_pdf_handler ?env [] (Pages [Inr kimchi]) fresh =
     (None, \<lparr>calls = 2, sleeps = []\<rparr>,
      [(StWrite, [Lit t_pdf_preview]),
       (StTextArea, [Lit (kimchi @ [10] @ cp ''...'')]),
       (StSuccess, [Lit t_analysis_done]),
       (StMarkdown, [Lit t_report_heading]), (StTextArea, [Lit [111, 107]]),
       (StDownloadButton, [Lit t_download_label, Lit [111, 107], Lit t_report_file_prefix, Lit [],
                           Lit (cp ''.txt'')])])"
    using T [of "Pages [Inr kimchi]", THEN conjunct2, THEN conjunct2, THEN conjunct1, rule_format,
        OF clean]
    unfolding extracted short
    by (simp add: analysis plain report ok)
  ultimately show ?thesis by blast
qed

section \<open>The missing credential\<close>

text \<open>
  Claim C5. When the secrets hold no \<open>OPENAI_API_KEY\<close>, the run stops at the check:
  the screen shows the configuration error and nothing else, no part of the page runs, and
  the world is unchanged, so no call to the service was made.
\<close>

theorem missing_key_halts:
  assumes "secrets (cp ''OPENAI_API_KEY'') = None"
  shows "app env secrets inp w = (Stopped, w, [(StError, [Lit t_missing_key])])"
  using assms by (simp add: app_def)

text \<open>
  An instance with every button pressed and every upload present: the run still stops
  with no call made.
\<close>

theorem missing_key_halts_witness:
  "app (sample_env [replies sample_reply, replies [111, 107]]) Map.empty busy_inputs fresh =
     (Stopped, \<lparr>calls = 0, sleeps = []\<rparr>, [(StError, [Lit t_missing_key])])"
  using missing_key_halts [of Map.empty "sample_env [replies sample_reply, replies [111, 107]]"
      busy_inputs fresh]
  by (simp add: fresh_def)

text \<open>
  With the key present the page runs: the text tab analyses the input and asks for the
  report, two calls in all.
\<close>

lemma key_present_runs:
  "app (sample_env [replies sample_reply, replies [111, 107]])
       [cp ''OPENAI_API_KEY'' \<mapsto> cp ''sk''] text_only_inputs fresh =
     (Completed, \<lparr>calls = 2, sleeps = []\<rparr>,
      [(StSuccess, [Lit t_analysis_done]),
       (StMarkdown, [Lit t_report_heading]), (StTextArea, [Lit [111, 107]]),
       (StDownloadButton, [Lit t_download_label, Lit [111, 107], Lit t_report_file_prefix, Lit [],
                           Lit (cp ''.txt'')])])"
proof -
  have parsed: "parse_reply sample_decoder (Response [Some sample_reply]) = Inr sample_mapping"
    by (simp add: parse_reply_def reply_content_def strip_def py_isspace_def sample_reply_def
      sample_object_text_def match_here_def greedy_to_def sample_decoder_def table_decoder_def)
  have nonblank: "strip ssalbap \<noteq> []"
    by (simp add: strip_def ssalbap_def py_isspace_def)
  have plain: "render_text_result sample_mapping = ([(StSuccess, [Lit t_analysis_done])], None)"
    by (simp add: render_text_result_def when_key_def andthen_def shown_def sample_mapping_def
        cp_def)
  have ok: "\<not> has_key (cp ''error'') sample_mapping"
    by (simp add: has_key_def sample_mapping_def cp_def)
  have report: "strip [111, 107] = [111, 107]"
    by (simp add: strip_def py_isspace_def)
  show ?thesis
    by (simp add: app_def sidebar_def image_tab_def text_tab_def excel_tab_def pdf_tab_def
        text_only_inputs_def analyze_and_report_def analyze_text_with_ai_def after_loop_def
        sample_env_def scripted_client_def replies_def fresh_def default_max_retries_def parsed
        nonblank plain ok report_section_def generate_ai_report_def reply_content_def report)
qed

end
